theory Spec2Isabelle
  imports Main "HOL-Library.Word"
begin

unbundle bit_operations_syntax

section \<open>Gossip tracker (network/gossip_tracker.go)\<close>

subsection \<open>Node ids and bitsets\<close>

text \<open>
  \<open>ids.NodeID\<close> is a 20-byte array. Reading a Go map at a key it does not hold gives the
  zero value of the element type, here the all-zero node id.
\<close>

type_synonym NodeID = "160 word"

definition EmptyNodeID :: NodeID where
  "EmptyNodeID = 0"

text \<open>
  Modelled from the spec: \<open>ids.BigBitSet\<close> (package \<open>ids\<close> is not under src/). The spec
  calls it a bitset over a compact integer index space, with a least-significant and a
  most-significant end. A bitset is the natural number whose binary digits are its bits:
  \<open>Add\<close> sets a bit, \<open>Remove\<close> clears it, \<open>Contains\<close> tests it, \<open>Union\<close> is bitwise or,
  \<open>Difference\<close> is bitwise and-not, and \<open>Len\<close> is the bit length (one more than the index
  of the highest set bit, 0 for the empty bitset).
\<close>

type_synonym BigBitSet = nat

definition NewBigBitSet :: BigBitSet where
  "NewBigBitSet = 0"

definition bs_Add :: "nat \<Rightarrow> BigBitSet \<Rightarrow> BigBitSet" where
  "bs_Add i b = set_bit i b"

definition bs_Remove :: "nat \<Rightarrow> BigBitSet \<Rightarrow> BigBitSet" where
  "bs_Remove i b = unset_bit i b"

definition bs_Contains :: "BigBitSet \<Rightarrow> nat \<Rightarrow> bool" where
  "bs_Contains b i = bit b i"

definition bs_Union :: "BigBitSet \<Rightarrow> BigBitSet \<Rightarrow> BigBitSet" where
  "bs_Union a b = a OR b"

definition bs_Difference :: "BigBitSet \<Rightarrow> BigBitSet \<Rightarrow> BigBitSet" where
  "bs_Difference a b = nat (int a AND NOT (int b))"

fun bs_Len :: "BigBitSet \<Rightarrow> nat" where
  "bs_Len b = (if b = 0 then 0 else Suc (bs_Len (b div 2)))"

declare bs_Len.simps [simp del]

subsection \<open>The tracker\<close>

record GossipTracker =
  local_bits :: BigBitSet
  knownPeers :: "NodeID \<rightharpoonup> BigBitSet"
  peersToIndices :: "NodeID \<rightharpoonup> nat"
  indicesToPeers :: "nat \<rightharpoonup> NodeID"

definition NewGossipTracker :: GossipTracker where
  "NewGossipTracker =
     \<lparr> local_bits = NewBigBitSet, knownPeers = Map.empty,
       peersToIndices = Map.empty, indicesToPeers = Map.empty \<rparr>"

text \<open>\<open>g.indicesToPeers[i]\<close>: a Go map read, the zero node id at a missing key.\<close>

definition peerAt :: "(nat \<rightharpoonup> NodeID) \<Rightarrow> nat \<Rightarrow> NodeID" where
  "peerAt m i = (case m i of None \<Rightarrow> EmptyNodeID | Some p \<Rightarrow> p)"

text \<open>\<open>len(g.peersToIndices)\<close>: the number of keys of the map.\<close>

definition numPeers :: "GossipTracker \<Rightarrow> nat" where
  "numPeers g = card (dom (peersToIndices g))"

definition Contains :: "GossipTracker \<Rightarrow> NodeID \<Rightarrow> bool" where
  "Contains g p = (case knownPeers g p of None \<Rightarrow> False | Some _ \<Rightarrow> True)"

definition Add :: "NodeID \<Rightarrow> GossipTracker \<Rightarrow> bool \<times> GossipTracker" where
  "Add p g =
     (case peersToIndices g p of
        Some _ \<Rightarrow> (False, g)
      | None \<Rightarrow>
          (let tail = numPeers g
           in (True,
               g\<lparr> peersToIndices := (peersToIndices g)(p \<mapsto> tail),
                  knownPeers := (knownPeers g)(p \<mapsto> NewBigBitSet),
                  indicesToPeers := (indicesToPeers g)(tail \<mapsto> p),
                  local_bits := bs_Add tail (local_bits g) \<rparr>)))"

text \<open>
  The body of the loop of \<open>Remove\<close> over the known-sets of the remaining peers: bit \<open>tail\<close>
  is copied into bit \<open>idx\<close> when the two differ, then bit \<open>tail\<close> is cleared.
\<close>

definition swapTail :: "nat \<Rightarrow> nat \<Rightarrow> BigBitSet \<Rightarrow> BigBitSet" where
  "swapTail idx tail k =
     bs_Remove tail
       (if idx \<noteq> tail
        then (if bs_Contains k tail then bs_Add idx k else bs_Remove idx k)
        else k)"

text \<open>
  \<open>tail = len(g.peersToIndices) - 1\<close> is computed only after \<open>id\<close> was found in the map,
  so the length is at least one and the subtraction on naturals is the one of the code.
\<close>

definition Remove :: "NodeID \<Rightarrow> GossipTracker \<Rightarrow> bool \<times> GossipTracker" where
  "Remove p g =
     (case peersToIndices g p of
        None \<Rightarrow> (False, g)
      | Some idx \<Rightarrow>
          (let evicted = peerAt (indicesToPeers g) idx;
               tail = numPeers g - 1;
               lastPeer = peerAt (indicesToPeers g) tail;
               i2p = (if idx \<noteq> tail then (indicesToPeers g)(idx \<mapsto> lastPeer)
                      else indicesToPeers g);
               p2i = (if idx \<noteq> tail then (peersToIndices g)(lastPeer \<mapsto> idx)
                      else peersToIndices g);
               kp = (knownPeers g)(evicted := None)
           in (True,
               g\<lparr> knownPeers := (\<lambda>q. map_option (swapTail idx tail) (kp q)),
                  peersToIndices := p2i(evicted := None),
                  indicesToPeers := i2p(tail := None),
                  local_bits := bs_Remove tail (local_bits g) \<rparr>)))"

text \<open>
  The loop of \<open>UpdateKnown\<close> over \<open>learned\<close>: it fills a fresh bitset and gives up, with
  nothing written, at the first node id that is not tracked.
\<close>

fun learnedBits :: "(NodeID \<rightharpoonup> nat) \<Rightarrow> NodeID list \<Rightarrow> BigBitSet \<Rightarrow> BigBitSet option" where
  "learnedBits p2i [] bs = Some bs"
| "learnedBits p2i (n # ns) bs =
     (case p2i n of
        None \<Rightarrow> None
      | Some idx \<Rightarrow> learnedBits p2i ns (bs_Add idx bs))"

definition UpdateKnown :: "NodeID \<Rightarrow> NodeID list \<Rightarrow> GossipTracker \<Rightarrow> bool \<times> GossipTracker" where
  "UpdateKnown p learned g =
     (case knownPeers g p of
        None \<Rightarrow> (False, g)
      | Some known \<Rightarrow>
          (case learnedBits (peersToIndices g) learned NewBigBitSet of
             None \<Rightarrow> (False, g)
           | Some bs \<Rightarrow> (True, g\<lparr> knownPeers := (knownPeers g)(p \<mapsto> bs_Union known bs) \<rparr>)))"

text \<open>
  The loop of \<open>GetUnknown\<close>: \<open>i\<close> runs from 0 to \<open>unknown.Len()\<close>; an unset bit is skipped,
  a set bit ends the loop once \<open>limit\<close> results are collected and otherwise appends the
  peer at that index. \<open>limit\<close> is a Go \<open>int\<close>; it is only compared, never computed with.
\<close>

function unknownLoop ::
  "(nat \<rightharpoonup> NodeID) \<Rightarrow> BigBitSet \<Rightarrow> int \<Rightarrow> nat \<Rightarrow> NodeID list \<Rightarrow> NodeID list" where
  "unknownLoop i2p unknown limit i result =
     (if i < bs_Len unknown
      then (if \<not> bs_Contains unknown i then unknownLoop i2p unknown limit (Suc i) result
            else if int (length result) \<ge> limit then result
            else unknownLoop i2p unknown limit (Suc i) (result @ [peerAt i2p i]))
      else result)"
  by pat_completeness auto
termination
  by (relation "measure (\<lambda>(i2p, unknown, limit, i, result). bs_Len unknown - i)") auto

declare unknownLoop.simps [simp del]

text \<open>
  \<open>GetUnknown\<close> only reads the tracker. The result is the slice (\<open>None\<close> for Go's nil
  slice), the flag, and the tracker as the call leaves it.
\<close>

definition GetUnknown ::
  "NodeID \<Rightarrow> int \<Rightarrow> GossipTracker \<Rightarrow> (NodeID list option \<times> bool) \<times> GossipTracker" where
  "GetUnknown p limit g =
     (if limit \<le> 0 then ((None, False), g)
      else
        (let unknown = bs_Union NewBigBitSet (local_bits g)
         in (case knownPeers g p of
               None \<Rightarrow> ((None, False), g)
             | Some known \<Rightarrow>
                 (let unknown' = bs_Difference unknown known
                  in ((Some (unknownLoop (indicesToPeers g) unknown' limit 0 []), True), g)))))"

subsection \<open>Sequences of operations and the well-formedness of a tracker\<close>

datatype tracker_op = OpAdd NodeID | OpRemove NodeID | OpUpdateKnown NodeID "NodeID list"

fun applyOp :: "tracker_op \<Rightarrow> GossipTracker \<Rightarrow> GossipTracker" where
  "applyOp (OpAdd p) g = snd (Add p g)"
| "applyOp (OpRemove p) g = snd (Remove p g)"
| "applyOp (OpUpdateKnown p learned) g = snd (UpdateKnown p learned g)"

definition runOps :: "tracker_op list \<Rightarrow> GossipTracker" where
  "runOps operations = fold applyOp operations NewGossipTracker"

definition tracker_wf :: "GossipTracker \<Rightarrow> bool" where
  "tracker_wf g \<longleftrightarrow>
     finite (dom (peersToIndices g)) \<and>
     dom (knownPeers g) = dom (peersToIndices g) \<and>
     (\<forall>p i. peersToIndices g p = Some i \<longleftrightarrow> indicesToPeers g i = Some p) \<and>
     dom (indicesToPeers g) = {..<numPeers g} \<and>
     (\<forall>i. bit (local_bits g) i \<longleftrightarrow> i < numPeers g) \<and>
     (\<forall>p k i. knownPeers g p = Some k \<longrightarrow> bit k i \<longrightarrow> bit (local_bits g) i)"

text \<open>The tracker of the three-peer example in the comment at the head of the source file.\<close>

definition exampleTracker :: GossipTracker where
  "exampleTracker =
     \<lparr> local_bits = 7,
       knownPeers = [1 \<mapsto> 7, 2 \<mapsto> 3, 3 \<mapsto> 1],
       peersToIndices = [1 \<mapsto> 0, 2 \<mapsto> 1, 3 \<mapsto> 2],
       indicesToPeers = [0 \<mapsto> 1, 1 \<mapsto> 2, 2 \<mapsto> 3] \<rparr>"

definition exampleOps :: "tracker_op list" where
  "exampleOps = [OpAdd 1, OpAdd 2, OpAdd 3, OpUpdateKnown 3 [1, 2], OpRemove 1]"

section \<open>Fee calculator (vms/platformvm/txs/fee/calculator.go)\<close>

subsection \<open>Machine integers, ids, times\<close>

type_synonym u64 = "64 word"

text \<open>\<open>math.MaxUint64\<close>, the largest 64-bit value.\<close>

definition MaxUint64 :: u64 where
  "MaxUint64 = - 1"

text \<open>\<open>ids.ID\<close> is a 32-byte array; \<open>constants.PrimaryNetworkID\<close> is the all-zero id.\<close>

type_synonym ID = "256 word"

definition PrimaryNetworkID :: ID where
  "PrimaryNetworkID = 0"

text \<open>
  A \<open>time.Time\<close> is an instant, here the integer number of nanoseconds since the epoch;
  a \<open>time.Duration\<close> is a number of nanoseconds. The code compares instants and adds
  durations to them.
\<close>

type_synonym Time = int
type_synonym Duration = int

subsection \<open>Fee dimensions and the fee manager\<close>

text \<open>
  \<open>fees.Dimensions\<close> is an array of four 64-bit counters, indexed by the dimension:
  bandwidth, read, write, compute.
\<close>

datatype Dimension = Bandwidth | DBRead | DBWrite | Compute

record Dimensions =
  dimBandwidth :: u64
  dimRead :: u64
  dimWrite :: u64
  dimCompute :: u64

definition Empty :: Dimensions where
  "Empty = \<lparr> dimBandwidth = 0, dimRead = 0, dimWrite = 0, dimCompute = 0 \<rparr>"

text \<open>
  Modelled from the spec: the tip denominator (package \<open>fees\<close> is not under src/):
  \<open>TIP_DENOMINATOR = 1_000_000\<close>.
\<close>

definition TipDenonimator :: u64 where
  "TipDenonimator = 1000000"

text \<open>
  Modelled from the spec: \<open>fees.Manager\<close> (not under src/), the holder of the unit fees
  and of the complexity cumulated in the block so far, with the three operations the
  calculator calls.
  \<^item> \<open>CumulateComplexity\<close>: the spec lets \<open>add_fees_for\<close> fail with
    \<open>BlockCapacityExceeded{dimension}\<close> if any dimension of (current cumulative +
    complexity) exceeds the block cap. The sum is the sum of the spec's fee dimensions,
    component-wise and saturating at the largest 64-bit value (\<open>satAdd\<close>, \<open>dimsPlus\<close>);
    the first dimension in the order of the array is reported, and nothing is cumulated
    on a breach.
  \<^item> \<open>RemoveComplexity\<close>: the spec lets \<open>remove_fees_for\<close> decrement; the call can
    fail in the source, and fails here when a counter would go below zero, with nothing
    removed.
  \<^item> \<open>CalculateFee\<close>: the spec gives \<open>\<Sum>\<^sub>i unit_fee[i] \<times> dims[i]\<close> scaled by
    \<open>(1 + tip_pct / TIP_DENOMINATOR)\<close>; the call can fail in the source, and fails here
    when the fee does not fit 64 bits.
\<close>

record Manager =
  unitFees :: Dimensions
  cumulatedComplexity :: Dimensions

definition satAdd :: "u64 \<Rightarrow> u64 \<Rightarrow> u64" where
  "satAdd a b = (if unat a + unat b < 2 ^ 64 then a + b else MaxUint64)"

definition exceeds :: "u64 \<Rightarrow> u64 \<Rightarrow> u64 \<Rightarrow> bool" where
  "exceeds cum x cap = (satAdd cum x > cap)"

definition dimsPlus :: "Dimensions \<Rightarrow> Dimensions \<Rightarrow> Dimensions" where
  "dimsPlus a b =
     \<lparr> dimBandwidth = satAdd (dimBandwidth a) (dimBandwidth b),
       dimRead = satAdd (dimRead a) (dimRead b),
       dimWrite = satAdd (dimWrite a) (dimWrite b),
       dimCompute = satAdd (dimCompute a) (dimCompute b) \<rparr>"


definition CumulateComplexity ::
  "Dimensions \<Rightarrow> Dimensions \<Rightarrow> Manager \<Rightarrow> (bool \<times> Dimension) \<times> Manager" where
  "CumulateComplexity x bounds m =
     (let cum = cumulatedComplexity m in
      if exceeds (dimBandwidth cum) (dimBandwidth x) (dimBandwidth bounds)
        then ((True, Bandwidth), m)
      else if exceeds (dimRead cum) (dimRead x) (dimRead bounds)
        then ((True, DBRead), m)
      else if exceeds (dimWrite cum) (dimWrite x) (dimWrite bounds)
        then ((True, DBWrite), m)
      else if exceeds (dimCompute cum) (dimCompute x) (dimCompute bounds)
        then ((True, Compute), m)
      else ((False, Bandwidth), m\<lparr> cumulatedComplexity := dimsPlus cum x \<rparr>))"



definition CalculateFee :: "Manager \<Rightarrow> Dimensions \<Rightarrow> u64 \<Rightarrow> u64 option" where
  "CalculateFee m x tip =
     (let u = unitFees m;
          base = unat (dimBandwidth u) * unat (dimBandwidth x) + unat (dimRead u) * unat (dimRead x)
               + unat (dimWrite u) * unat (dimWrite x) + unat (dimCompute u) * unat (dimCompute x);
          total = base + base * unat tip div unat TipDenonimator
      in if total < 2 ^ 64 then Some (of_nat total) else None)"

subsection \<open>Transactions as the calculator reads them\<close>

text \<open>
  The calculator reads the inputs and outputs of a transaction only through the metering
  primitives, so an input and an output are opaque tokens. Of a credential it reads
  whether it is a \<open>secp256k1fx.Credential\<close> and, if so, the number of its signatures.
\<close>

type_synonym TransferableInput = nat
type_synonym TransferableOutput = nat

datatype Credential = Secp256k1Credential nat | OtherCredential

datatype UnsignedTx =
    AddValidatorTx
  | AddSubnetValidatorTx "TransferableOutput list" "TransferableInput list"
  | AddDelegatorTx
  | CreateChainTx "TransferableOutput list" "TransferableInput list"
  | CreateSubnetTx "TransferableOutput list" "TransferableInput list"
  | AdvanceTimeTx
  | RewardValidatorTx
  | RemoveSubnetValidatorTx "TransferableOutput list" "TransferableInput list"
  | TransformSubnetTx "TransferableOutput list" "TransferableInput list"
  | TransferSubnetOwnershipTx "TransferableOutput list" "TransferableInput list"
  | AddPermissionlessValidatorTx ID "TransferableOutput list" "TransferableInput list"
  | AddPermissionlessDelegatorTx ID "TransferableOutput list" "TransferableOutput list"
      "TransferableInput list"
  | BaseTx "TransferableOutput list" "TransferableInput list"
  | ImportTx "TransferableOutput list" "TransferableInput list" "TransferableInput list"
  | ExportTx "TransferableOutput list" "TransferableOutput list" "TransferableInput list"

text \<open>
  \<open>AddPermissionlessDelegatorTx subnet outs stakeOuts ins\<close>, \<open>ImportTx outs ins
  importedInputs\<close>, \<open>ExportTx outs exportedOutputs ins\<close>.
\<close>

datatype fee_error =
    ErrFeesPaidLessThanRequired
  | ErrTipPercentageInvalid
  | ErrFailedComplexityCumulation Dimension
  | ErrFailedFeeCalculation
  | ErrFailedRemovingUnits
  | ErrMarshalLength
  | ErrUnknownCredential
  | ErrMeterCredential nat
  | ErrAddingCredentials
  | ErrSizeOfInputs
  | ErrAddingInputs
  | ErrSizeOfOutputs
  | ErrAddingOutputs

text \<open>
  The codec and the metering primitives of package \<open>fees\<close> are not under src/; \<open>meterTx\<close>
  takes them as parameters. Each yields \<open>None\<close> where the Go function returns an error.
\<close>

record Metering =
  codecSize :: "UnsignedTx \<Rightarrow> u64 option"
  MeterCredential :: "nat \<Rightarrow> Dimensions option"
  MeterInput :: "TransferableInput \<Rightarrow> Dimensions option"
  MeterOutput :: "TransferableOutput \<Rightarrow> Dimensions option"
  feesAdd :: "Dimensions \<Rightarrow> Dimensions \<Rightarrow> Dimensions option"
  IntLen :: u64
  VersionSize :: u64

record StaticConfig =
  TxFee :: u64
  CreateAssetTxFee :: u64
  CreateSubnetTxFee :: u64
  TransformSubnetTxFee :: u64
  CreateBlockchainTxFee :: u64
  AddPrimaryNetworkValidatorFee :: u64
  AddPrimaryNetworkDelegatorFee :: u64
  AddSubnetValidatorFee :: u64
  AddSubnetDelegatorFee :: u64

text \<open>
  Modelled from the spec: the fork predicate \<open>IsApricotPhase3Activated\<close> of
  \<open>upgrade.Config\<close> (not under src/). The spec's fork rules carry the time at which each
  fork activates; a fork is active from that time on.
\<close>

record UpgradeConfig =
  ApricotPhase3Time :: Time

definition IsApricotPhase3Activated :: "UpgradeConfig \<Rightarrow> Time \<Rightarrow> bool" where
  "IsApricotPhase3Activated u t = (ApricotPhase3Time u \<le> t)"

subsection \<open>The calculator\<close>

text \<open>
  \<open>feeManager\<close> is a pointer in the source, \<open>nil\<close> in a static calculator; the manager it
  points to is held here in the calculator.
\<close>

record calculator =
  isEActive :: bool
  upgrades :: UpgradeConfig
  staticCfg :: StaticConfig
  time :: Time
  feeManager :: "Manager option"
  blockMaxComplexity :: Dimensions
  credentials :: "Credential list"
  tipPercentage :: u64
  fee :: u64

definition NewStaticCalculator :: "StaticConfig \<Rightarrow> UpgradeConfig \<Rightarrow> Time \<Rightarrow> calculator" where
  "NewStaticCalculator cfg ut chainTime =
     \<lparr> isEActive = False, upgrades = ut, staticCfg = cfg, time = chainTime,
       feeManager = None, blockMaxComplexity = Empty, credentials = [],
       tipPercentage = 0, fee = 0 \<rparr>"


definition ResetFee :: "u64 \<Rightarrow> calculator \<Rightarrow> calculator" where
  "ResetFee newFee c = c\<lparr> fee := newFee \<rparr>"

definition ResetTipPercentage :: "u64 \<Rightarrow> calculator \<Rightarrow> calculator" where
  "ResetTipPercentage tip c = c\<lparr> tipPercentage := tip \<rparr>"

text \<open>
  \<open>CalculateTipPercentage\<close>. The multiplication and the division are those of 64-bit
  unsigned integers. \<open>TipPercentage.Validate\<close> is not under src/: \<open>valid\<close> tells which
  tip percentages it accepts.
\<close>

definition CalculateTipPercentage ::
  "(u64 \<Rightarrow> bool) \<Rightarrow> u64 \<Rightarrow> calculator \<Rightarrow> fee_error option \<times> calculator" where
  "CalculateTipPercentage valid feesPaid c =
     (if feesPaid < fee c then (Some ErrFeesPaidLessThanRequired, c)
      else if fee c = 0 then (None, c)
      else
        (let tip = feesPaid - fee c;
             c' = c\<lparr> tipPercentage := tip * TipDenonimator div fee c \<rparr>
         in ((if valid (tipPercentage c') then None else Some ErrTipPercentageInvalid), c')))"

definition addFeesFor :: "Dimensions \<Rightarrow> calculator \<Rightarrow> (fee_error + u64) \<times> calculator" where
  "addFeesFor complexity c =
     (case feeManager c of
        None \<Rightarrow> (Inr 0, c)
      | Some m \<Rightarrow>
          if complexity = Empty then (Inr 0, c)
          else
            (case CumulateComplexity complexity (blockMaxComplexity c) m of
               ((True, dimension), _) \<Rightarrow> (Inl (ErrFailedComplexityCumulation dimension), c)
             | ((False, _), m') \<Rightarrow>
                 (case CalculateFee m' complexity (tipPercentage c) of
                    None \<Rightarrow> (Inl ErrFailedFeeCalculation, c\<lparr> feeManager := Some m' \<rparr>)
                  | Some f \<Rightarrow> (Inr f, c\<lparr> feeManager := Some m', fee := fee c + f \<rparr>))))"


text \<open>The three loops of \<open>meterTx\<close>, over the credentials, the inputs and the outputs.\<close>

fun meterCreds :: "Metering \<Rightarrow> nat \<Rightarrow> Credential list \<Rightarrow> Dimensions \<Rightarrow> fee_error + Dimensions" where
  "meterCreds mt i [] complexity = Inr complexity"
| "meterCreds mt i (cred # creds) complexity =
     (case cred of
        OtherCredential \<Rightarrow> Inl ErrUnknownCredential
      | Secp256k1Credential sigs \<Rightarrow>
          (case MeterCredential mt sigs of
             None \<Rightarrow> Inl (ErrMeterCredential i)
           | Some credDimensions \<Rightarrow>
               (case feesAdd mt complexity credDimensions of
                  None \<Rightarrow> Inl ErrAddingCredentials
                | Some complexity' \<Rightarrow> meterCreds mt (Suc i) creds complexity')))"

fun meterIns :: "Metering \<Rightarrow> TransferableInput list \<Rightarrow> Dimensions \<Rightarrow> fee_error + Dimensions" where
  "meterIns mt [] complexity = Inr complexity"
| "meterIns mt (inp # ins) complexity =
     (case MeterInput mt inp of
        None \<Rightarrow> Inl ErrSizeOfInputs
      | Some inputDimensions \<Rightarrow>
          (case feesAdd mt complexity (inputDimensions\<lparr> dimBandwidth := 0 \<rparr>) of
             None \<Rightarrow> Inl ErrAddingInputs
           | Some complexity' \<Rightarrow> meterIns mt ins complexity'))"

fun meterOuts :: "Metering \<Rightarrow> TransferableOutput list \<Rightarrow> Dimensions \<Rightarrow> fee_error + Dimensions" where
  "meterOuts mt [] complexity = Inr complexity"
| "meterOuts mt (out # outs) complexity =
     (case MeterOutput mt out of
        None \<Rightarrow> Inl ErrSizeOfOutputs
      | Some outputDimensions \<Rightarrow>
          (case feesAdd mt complexity (outputDimensions\<lparr> dimBandwidth := 0 \<rparr>) of
             None \<Rightarrow> Inl ErrAddingOutputs
           | Some complexity' \<Rightarrow> meterOuts mt outs complexity'))"

definition meterTx ::
  "Metering \<Rightarrow> calculator \<Rightarrow> UnsignedTx \<Rightarrow> TransferableOutput list \<Rightarrow> TransferableInput list
     \<Rightarrow> fee_error + Dimensions" where
  "meterTx mt c uTx allOuts allIns =
     (case codecSize mt uTx of
        None \<Rightarrow> Inl ErrMarshalLength
      | Some uTxSize \<Rightarrow>
          (case meterCreds mt 0 (credentials c) (Empty\<lparr> dimBandwidth := uTxSize \<rparr>) of
             Inl e \<Rightarrow> Inl e
           | Inr c1 \<Rightarrow>
               (case meterIns mt allIns
                       (c1\<lparr> dimBandwidth := dimBandwidth c1 + IntLen mt + VersionSize mt \<rparr>) of
                  Inl e \<Rightarrow> Inl e
                | Inr c2 \<Rightarrow> meterOuts mt allOuts c2)))"

text \<open>
  The common tail of the visitor methods after the E upgrade: meter the transaction and
  add the fees for its complexity. The value is the error, if any, and the calculator.
\<close>

definition meterAndAdd ::
  "Metering \<Rightarrow> UnsignedTx \<Rightarrow> TransferableOutput list \<Rightarrow> TransferableInput list \<Rightarrow> calculator
     \<Rightarrow> fee_error option \<times> calculator" where
  "meterAndAdd mt tx outs ins c =
     (case meterTx mt c tx outs ins of
        Inl e \<Rightarrow> (Some e, c)
      | Inr complexity \<Rightarrow>
          (case addFeesFor complexity c of
             (Inl e, c') \<Rightarrow> (Some e, c')
           | (Inr _, c') \<Rightarrow> (None, c')))"

text \<open>The visitor: one equation for each method of \<open>calculator\<close>.\<close>

fun visit :: "Metering \<Rightarrow> UnsignedTx \<Rightarrow> calculator \<Rightarrow> fee_error option \<times> calculator" where
  "visit mt AddValidatorTx c =
     (None, c\<lparr> fee := AddPrimaryNetworkValidatorFee (staticCfg c) \<rparr>)"
| "visit mt (AddSubnetValidatorTx outs ins) c =
     (if \<not> isEActive c then (None, c\<lparr> fee := AddSubnetValidatorFee (staticCfg c) \<rparr>)
      else meterAndAdd mt (AddSubnetValidatorTx outs ins) outs ins c)"
| "visit mt AddDelegatorTx c =
     (None, c\<lparr> fee := AddPrimaryNetworkDelegatorFee (staticCfg c) \<rparr>)"
| "visit mt (CreateChainTx outs ins) c =
     (if \<not> isEActive c
      then (if IsApricotPhase3Activated (upgrades c) (time c)
            then (None, c\<lparr> fee := CreateBlockchainTxFee (staticCfg c) \<rparr>)
            else (None, c\<lparr> fee := CreateAssetTxFee (staticCfg c) \<rparr>))
      else meterAndAdd mt (CreateChainTx outs ins) outs ins c)"
| "visit mt (CreateSubnetTx outs ins) c =
     (if \<not> isEActive c
      then (if IsApricotPhase3Activated (upgrades c) (time c)
            then (None, c\<lparr> fee := CreateSubnetTxFee (staticCfg c) \<rparr>)
            else (None, c\<lparr> fee := CreateAssetTxFee (staticCfg c) \<rparr>))
      else meterAndAdd mt (CreateSubnetTx outs ins) outs ins c)"
| "visit mt AdvanceTimeTx c = (None, c\<lparr> fee := 0 \<rparr>)"
| "visit mt RewardValidatorTx c = (None, c\<lparr> fee := 0 \<rparr>)"
| "visit mt (RemoveSubnetValidatorTx outs ins) c =
     (if \<not> isEActive c then (None, c\<lparr> fee := TxFee (staticCfg c) \<rparr>)
      else meterAndAdd mt (RemoveSubnetValidatorTx outs ins) outs ins c)"
| "visit mt (TransformSubnetTx outs ins) c =
     (if \<not> isEActive c then (None, c\<lparr> fee := TransformSubnetTxFee (staticCfg c) \<rparr>)
      else meterAndAdd mt (TransformSubnetTx outs ins) outs ins c)"
| "visit mt (TransferSubnetOwnershipTx outs ins) c =
     (if \<not> isEActive c then (None, c\<lparr> fee := TxFee (staticCfg c) \<rparr>)
      else meterAndAdd mt (TransferSubnetOwnershipTx outs ins) outs ins c)"
| "visit mt (AddPermissionlessValidatorTx subnet outs ins) c =
     (if \<not> isEActive c
      then (if subnet \<noteq> PrimaryNetworkID
            then (None, c\<lparr> fee := AddSubnetValidatorFee (staticCfg c) \<rparr>)
            else (None, c\<lparr> fee := CreateAssetTxFee (staticCfg c) \<rparr>))
      else meterAndAdd mt (AddPermissionlessValidatorTx subnet outs ins) outs ins c)"
| "visit mt (AddPermissionlessDelegatorTx subnet outs stakeOuts ins) c =
     (if \<not> isEActive c
      then (if subnet \<noteq> PrimaryNetworkID
            then (None, c\<lparr> fee := AddSubnetDelegatorFee (staticCfg c) \<rparr>)
            else (None, c\<lparr> fee := AddPrimaryNetworkDelegatorFee (staticCfg c) \<rparr>))
      else meterAndAdd mt (AddPermissionlessDelegatorTx subnet outs stakeOuts ins)
             (outs @ stakeOuts) ins c)"
| "visit mt (BaseTx outs ins) c =
     (if \<not> isEActive c then (None, c\<lparr> fee := TxFee (staticCfg c) \<rparr>)
      else meterAndAdd mt (BaseTx outs ins) outs ins c)"
| "visit mt (ImportTx outs ins importedInputs) c =
     (if \<not> isEActive c then (None, c\<lparr> fee := TxFee (staticCfg c) \<rparr>)
      else meterAndAdd mt (ImportTx outs ins importedInputs) outs (ins @ importedInputs) c)"
| "visit mt (ExportTx outs exportedOutputs ins) c =
     (if \<not> isEActive c then (None, c\<lparr> fee := TxFee (staticCfg c) \<rparr>)
      else meterAndAdd mt (ExportTx outs exportedOutputs ins) (outs @ exportedOutputs) ins c)"

text \<open>\<open>ComputeFee\<close> visits the transaction and returns the fee of the calculator and the error.\<close>

definition ComputeFee ::
  "Metering \<Rightarrow> UnsignedTx \<Rightarrow> calculator \<Rightarrow> (u64 \<times> fee_error option) \<times> calculator" where
  "ComputeFee mt tx c = (case visit mt tx c of (err, c') \<Rightarrow> ((fee c', err), c'))"

subsection \<open>Example configurations\<close>

definition exampleStaticConfig :: StaticConfig where
  "exampleStaticConfig =
     \<lparr> TxFee = 1, CreateAssetTxFee = 2, CreateSubnetTxFee = 3, TransformSubnetTxFee = 4,
       CreateBlockchainTxFee = 5, AddPrimaryNetworkValidatorFee = 6,
       AddPrimaryNetworkDelegatorFee = 7, AddSubnetValidatorFee = 8,
       AddSubnetDelegatorFee = 9 \<rparr>"

definition exampleMetering :: Metering where
  "exampleMetering =
     \<lparr> codecSize = (\<lambda>tx. Some 100), MeterCredential = (\<lambda>n. Some Empty),
       MeterInput = (\<lambda>i. Some Empty), MeterOutput = (\<lambda>out. Some Empty),
       feesAdd = (\<lambda>a b. Some (dimsPlus a b)), IntLen = 4, VersionSize = 2 \<rparr>"

definition exampleStaticCalculator :: calculator where
  "exampleStaticCalculator =
     NewStaticCalculator exampleStaticConfig \<lparr> ApricotPhase3Time = 0 \<rparr> 0"

definition exampleTippedCalculator :: calculator where
  "exampleTippedCalculator = ResetTipPercentage 5 exampleStaticCalculator"

definition exampleFeeCalculator :: calculator where
  "exampleFeeCalculator = ResetFee 100 exampleStaticCalculator"









section \<open>Errors of the platform VM\<close>

text \<open>
  The sentinel errors of packages \<open>executor\<close>, \<open>validators\<close> and \<open>database\<close> that the
  embedded code returns. An error built with \<open>fmt.Errorf\<close> around a sentinel (\<open>%w\<close>) is
  the sentinel; an error built from a message alone has a constructor of its own
  (\<open>ErrMsg\<dots>\<close>); \<open>ErrOther\<close> stands for an error handed up from a collaborator that
  is not under src/.
\<close>

datatype vm_error =
    ErrNotFound
  | ErrMissingValidator
  | ErrMissingValidatorSet
  | ErrWeightTooSmall
  | ErrWeightTooLarge
  | ErrInsufficientDelegationFee
  | ErrStakeTooShort
  | ErrStakeTooLong
  | ErrFlowCheckFailed
  | ErrFutureStakeTime
  | ErrValidatorSubset
  | ErrNotValidator
  | ErrRemovePermissionlessValidator
  | ErrStakeOverflow
  | ErrOverDelegated
  | ErrIsNotTransformSubnetTx
  | ErrTimestampNotBeforeStartTime
  | ErrAlreadyValidator
  | ErrDuplicateValidator
  | ErrDelegateToPermissionedValidator
  | ErrWrongStakedAssetID
  | ErrUnauthorizedStakerStopping
  | ErrEmptyNodeID
  | ErrWrongTxType
  | ErrWrongNumberOfCredentials
  | ErrMsgChainTimestampNotBeforeValidatorStart
  | ErrMsgStopStakerBeforeFork
  | ErrMsgStakerToStopNotFound
  | ErrMsgExpectedPreContinuousStakingStaker
  | ErrMsgStakerTxNotFound
  | ErrMsgSubnetTxNotFound
  | ErrMsgUnhandledStakerType
  | ErrOther nat

section \<open>Validator manager (vms/platformvm/validators/manager.go)\<close>

text \<open>
  A validator set is a Go map from node id to \<open>GetValidatorOutput\<close>, here the list of its
  entries. A BLS public key is an opaque token, \<open>None\<close> for the nil pointer.
\<close>

record GetValidatorOutput =
  outNodeID :: NodeID
  outPublicKey :: "nat option"
  outWeight :: u64

type_synonym ValidatorSet = "(NodeID \<times> GetValidatorOutput) list"

definition PlatformChainID :: ID where
  "PlatformChainID = 0"

text \<open>
  The \<open>State\<close> interface that the manager reads. \<open>currentHeightOf\<close> is the outcome of
  \<open>GetLastAccepted\<close> followed by \<open>GetStatelessBlock\<close> and \<open>Height\<close>; \<open>stateValidatorSet\<close>
  is \<open>ValidatorSet\<close>. \<open>weightDiffAt\<close> and \<open>publicKeyDiffAt\<close> apply the diffs stored for one
  height (of one subnet) to a validator set; they are parameters.
\<close>

record ManagerState =
  currentHeightOf :: "vm_error + u64"
  stateValidatorSet :: "ID \<Rightarrow> vm_error + ValidatorSet"
  weightDiffAt :: "ID \<Rightarrow> u64 \<Rightarrow> ValidatorSet \<Rightarrow> vm_error + ValidatorSet"
  publicKeyDiffAt :: "u64 \<Rightarrow> ValidatorSet \<Rightarrow> vm_error + ValidatorSet"

text \<open>\<open>cfgValidators\<close> is \<open>m.cfg.Validators.Get\<close>, the validator sets held in memory.\<close>

record manager =
  cfgValidators :: "ID \<rightharpoonup> ValidatorSet"
  mstate :: ManagerState

text \<open>
  Modelled from the spec: \<open>ApplyValidatorWeightDiffs\<close> and \<open>ApplyValidatorPublicKeyDiffs\<close>
  of the \<open>State\<close> interface (their implementation is not under src/). The spec applies
  the diffs of the heights of an inclusive range in reverse order, mutating the working
  set; the interface in manager.go notes \<open>startHeight > endHeight\<close>. The loop starts at
  \<open>startHeight\<close>, steps down by one, ends after \<open>endHeight\<close>, and stops at the first error;
  it does nothing when \<open>startHeight < endHeight\<close>.
\<close>

function diffsDown ::
  "(u64 \<Rightarrow> ValidatorSet \<Rightarrow> vm_error + ValidatorSet) \<Rightarrow> u64 \<Rightarrow> u64 \<Rightarrow> ValidatorSet
     \<Rightarrow> vm_error + ValidatorSet" where
  "diffsDown f startHeight endHeight vs =
     (if startHeight < endHeight then Inr vs
      else (case f startHeight vs of
              Inl e \<Rightarrow> Inl e
            | Inr vs' \<Rightarrow>
                if startHeight = endHeight then Inr vs'
                else diffsDown f (startHeight - 1) endHeight vs'))"
  by pat_completeness auto
termination
proof (relation "measure (\<lambda>(f, s, e, vs). unat s)")
  show "wf (measure (\<lambda>(f, s, e, vs). unat s))" by simp
next
  fix f :: "u64 \<Rightarrow> ValidatorSet \<Rightarrow> vm_error + ValidatorSet"
  fix startHeight endHeight :: u64 and vs x2 :: ValidatorSet
  assume "\<not> startHeight < endHeight" "startHeight \<noteq> endHeight"
  then have "startHeight \<noteq> 0" by (metis word_neq_0_conv word_not_simps(1) not_less_iff_gr_or_eq)
  then have "unat (startHeight - 1) < unat startHeight"
    by (simp add: unat_minus_one unat_gt_0)
  then show "((f, startHeight - 1, endHeight, x2), (f, startHeight, endHeight, vs))
        \<in> measure (\<lambda>(f, s, e, vs). unat s)" by simp
qed

declare diffsDown.simps [simp del]

text \<open>
  For the statement of the range: the diffs of a list of heights applied in the order of
  the list, and the heights from \<open>hi\<close> down to \<open>lo\<close>.
\<close>

fun applyAll ::
  "(u64 \<Rightarrow> ValidatorSet \<Rightarrow> vm_error + ValidatorSet) \<Rightarrow> u64 list \<Rightarrow> ValidatorSet
     \<Rightarrow> vm_error + ValidatorSet" where
  "applyAll f [] vs = Inr vs"
| "applyAll f (h # hs) vs = (case f h vs of Inl e \<Rightarrow> Inl e | Inr vs' \<Rightarrow> applyAll f hs vs')"

definition heightsDown :: "u64 \<Rightarrow> u64 \<Rightarrow> u64 list" where
  "heightsDown hi lo = rev (map of_nat [unat lo..<Suc (unat hi)])"

definition getCurrentHeight :: "manager \<Rightarrow> vm_error + u64" where
  "getCurrentHeight m = currentHeightOf (mstate m)"

definition ApplyValidatorWeightDiffs ::
  "ManagerState \<Rightarrow> ValidatorSet \<Rightarrow> u64 \<Rightarrow> u64 \<Rightarrow> ID \<Rightarrow> vm_error + ValidatorSet" where
  "ApplyValidatorWeightDiffs st vs startHeight endHeight subnetID =
     diffsDown (weightDiffAt st subnetID) startHeight endHeight vs"

definition ApplyValidatorPublicKeyDiffs ::
  "ManagerState \<Rightarrow> ValidatorSet \<Rightarrow> u64 \<Rightarrow> u64 \<Rightarrow> vm_error + ValidatorSet" where
  "ApplyValidatorPublicKeyDiffs st vs startHeight endHeight =
     diffsDown (publicKeyDiffAt st) startHeight endHeight vs"

definition getCurrentPrimaryValidatorSet :: "manager \<Rightarrow> vm_error + ValidatorSet \<times> u64" where
  "getCurrentPrimaryValidatorSet m =
     (case cfgValidators m PrimaryNetworkID of
        None \<Rightarrow> Inl ErrMissingValidatorSet
      | Some currentValidators \<Rightarrow>
          (case getCurrentHeight m of
             Inl e \<Rightarrow> Inl e
           | Inr currentHeight \<Rightarrow> Inr (currentValidators, currentHeight)))"

definition makePrimaryNetworkValidatorSet ::
  "manager \<Rightarrow> u64 \<Rightarrow> vm_error + ValidatorSet \<times> u64" where
  "makePrimaryNetworkValidatorSet m targetHeight =
     (case getCurrentPrimaryValidatorSet m of
        Inl e \<Rightarrow> Inl e
      | Inr (validatorSet, currentHeight) \<Rightarrow>
          if currentHeight < targetHeight then Inl ErrNotFound
          else
            (let lastDiffHeight = targetHeight + 1 in
             case ApplyValidatorWeightDiffs (mstate m) validatorSet currentHeight lastDiffHeight
                    PlatformChainID of
               Inl e \<Rightarrow> Inl e
             | Inr vs1 \<Rightarrow>
                 (case ApplyValidatorPublicKeyDiffs (mstate m) vs1 currentHeight lastDiffHeight of
                    Inl e \<Rightarrow> Inl e
                  | Inr vs2 \<Rightarrow> Inr (vs2, currentHeight))))"

definition getCurrentValidatorSets ::
  "manager \<Rightarrow> ID \<Rightarrow> vm_error + ValidatorSet \<times> ValidatorSet \<times> u64" where
  "getCurrentValidatorSets m subnetID =
     (case (case cfgValidators m subnetID of
              Some vs \<Rightarrow> Inr vs
            | None \<Rightarrow> stateValidatorSet (mstate m) subnetID) of
        Inl e \<Rightarrow> Inl e
      | Inr currentSubnetValidators \<Rightarrow>
          (case cfgValidators m PrimaryNetworkID of
             None \<Rightarrow> Inl ErrMissingValidatorSet
           | Some currentPrimaryValidators \<Rightarrow>
               (case getCurrentHeight m of
                  Inl e \<Rightarrow> Inl e
                | Inr currentHeight \<Rightarrow>
                    Inr (currentSubnetValidators, currentPrimaryValidators, currentHeight))))"

text \<open>
  The loop of \<open>makeSubnetValidatorSet\<close> that copies the public key of the primary-network
  validator of the same node id into every subnet validator.
\<close>

fun overlayPublicKeys :: "ValidatorSet \<Rightarrow> ValidatorSet \<Rightarrow> vm_error + ValidatorSet" where
  "overlayPublicKeys [] primaryValidatorSet = Inr []"
| "overlayPublicKeys ((nodeID, vdr) # rest) primaryValidatorSet =
     (case map_of primaryValidatorSet nodeID of
        None \<Rightarrow> Inl ErrMissingValidator
      | Some primaryVdr \<Rightarrow>
          (case overlayPublicKeys rest primaryValidatorSet of
             Inl e \<Rightarrow> Inl e
           | Inr rest' \<Rightarrow> Inr ((nodeID, vdr\<lparr> outPublicKey := outPublicKey primaryVdr \<rparr>) # rest')))"

definition makeSubnetValidatorSet ::
  "manager \<Rightarrow> u64 \<Rightarrow> ID \<Rightarrow> vm_error + ValidatorSet \<times> u64" where
  "makeSubnetValidatorSet m targetHeight subnetID =
     (case getCurrentValidatorSets m subnetID of
        Inl e \<Rightarrow> Inl e
      | Inr (subnetValidatorSet, primaryValidatorSet, currentHeight) \<Rightarrow>
          if currentHeight < targetHeight then Inl ErrNotFound
          else
            (let lastDiffHeight = targetHeight + 1 in
             case ApplyValidatorWeightDiffs (mstate m) subnetValidatorSet currentHeight
                    lastDiffHeight subnetID of
               Inl e \<Rightarrow> Inl e
             | Inr vs1 \<Rightarrow>
                 (case overlayPublicKeys vs1 primaryValidatorSet of
                    Inl e \<Rightarrow> Inl e
                  | Inr vs2 \<Rightarrow>
                      (case ApplyValidatorPublicKeyDiffs (mstate m) vs2 currentHeight
                              lastDiffHeight of
                         Inl e \<Rightarrow> Inl e
                       | Inr vs3 \<Rightarrow> Inr (vs3, currentHeight)))))"

text \<open>
  \<open>GetValidatorSet\<close> without its cache and metrics: the early return on a cache hit is
  commented out in the source, so every call rebuilds the set.
\<close>

definition GetValidatorSet :: "manager \<Rightarrow> u64 \<Rightarrow> ID \<Rightarrow> vm_error + ValidatorSet" where
  "GetValidatorSet m targetHeight subnetID =
     (case (if subnetID = PrimaryNetworkID then makePrimaryNetworkValidatorSet m targetHeight
            else makeSubnetValidatorSet m targetHeight subnetID) of
        Inl e \<Rightarrow> Inl e
      | Inr (validatorSet, currentHeight) \<Rightarrow> Inr validatorSet)"

definition exampleManagerState :: ManagerState where
  "exampleManagerState =
     \<lparr> currentHeightOf = Inr 5,
       stateValidatorSet = (\<lambda>subnetID. Inr []),
       weightDiffAt = (\<lambda>subnetID h vs.
          Inr (map (\<lambda>(n, out). (n, out\<lparr> outWeight := 2 * outWeight out + h \<rparr>)) vs)),
       publicKeyDiffAt = (\<lambda>h vs. Inr vs) \<rparr>"

definition examplePrimarySet :: ValidatorSet where
  "examplePrimarySet = [(1, \<lparr> outNodeID = 1, outPublicKey = Some 11, outWeight = 1 \<rparr>)]"

definition exampleSubnetSet :: ValidatorSet where
  "exampleSubnetSet = [(1, \<lparr> outNodeID = 1, outPublicKey = None, outWeight = 10 \<rparr>)]"

definition exampleValidatorManager :: manager where
  "exampleValidatorManager =
     \<lparr> cfgValidators = [PrimaryNetworkID \<mapsto> examplePrimarySet, 7 \<mapsto> exampleSubnetSet],
       mstate = exampleManagerState \<rparr>"

section \<open>Staker verification (vms/platformvm/txs/executor/staker_tx_verification.go)\<close>

subsection \<open>Constants and helpers that are not under src/\<close>

text \<open>
  Modelled from the spec: the numeric constants \<open>MaxValidatorWeightFactor = 5\<close> and
  \<open>MAX_FUTURE_START_TIME = 24h\<close> (declared in package \<open>executor\<close>, not under src/). A
  duration counts nanoseconds.
\<close>

definition Second :: Duration where
  "Second = 1000000000"

definition MaxValidatorWeightFactor :: nat where
  "MaxValidatorWeightFactor = 5"

definition MaxFutureStartTime :: Duration where
  "MaxFutureStartTime = 24 * 60 * 60 * Second"

text \<open>
  Modelled from the spec: \<open>math.Mul64\<close> (package \<open>utils/math\<close>, not under src/), the
  multiplication that reports an overflow of 64 bits instead of wrapping; the spec's
  saturation to \<open>u64::MAX\<close> is what the caller does with that report. \<open>None\<close> is the
  overflow error.
\<close>

definition Mul64 :: "u64 \<Rightarrow> u64 \<Rightarrow> u64 option" where
  "Mul64 a b = (if unat a * unat b < 2 ^ 64 then Some (a * b) else None)"


subsection \<open>Stakers\<close>

text \<open>
  Modelled from the spec: \<open>txs.Priority\<close> (not under src/). The spec lists the priorities
  pending-subnet-validator, pending-network-validator, pending-delegator,
  current-subnet-validator, current-network-validator and current-delegator, and derives
  the priority of a staker from the variant of its transaction (validator or delegator,
  permissioned or permissionless). The source asks a priority whether it is a current or
  pending validator or delegator, whether it is a validator, and whether it is a
  permissioned validator, and it names \<open>SubnetPermissionedValidatorCurrentPriority\<close>; so
  a subnet validator is here permissioned or permissionless, and a delegator is on the
  primary network or on a subnet. The constructors are named after the one the source
  names. The order of the priorities is used nowhere in the embedded code.
\<close>

datatype Priority =
    PrimaryNetworkDelegatorPendingPriority
  | PrimaryNetworkValidatorPendingPriority
  | SubnetPermissionlessValidatorPendingPriority
  | SubnetPermissionlessDelegatorPendingPriority
  | SubnetPermissionedValidatorPendingPriority
  | SubnetPermissionedValidatorCurrentPriority
  | SubnetPermissionlessDelegatorCurrentPriority
  | SubnetPermissionlessValidatorCurrentPriority
  | PrimaryNetworkDelegatorCurrentPriority
  | PrimaryNetworkValidatorCurrentPriority

fun IsCurrentValidator :: "Priority \<Rightarrow> bool" where
  "IsCurrentValidator SubnetPermissionedValidatorCurrentPriority = True"
| "IsCurrentValidator SubnetPermissionlessValidatorCurrentPriority = True"
| "IsCurrentValidator PrimaryNetworkValidatorCurrentPriority = True"
| "IsCurrentValidator _ = False"


fun IsPendingValidator :: "Priority \<Rightarrow> bool" where
  "IsPendingValidator SubnetPermissionedValidatorPendingPriority = True"
| "IsPendingValidator SubnetPermissionlessValidatorPendingPriority = True"
| "IsPendingValidator PrimaryNetworkValidatorPendingPriority = True"
| "IsPendingValidator _ = False"


definition IsValidator :: "Priority \<Rightarrow> bool" where
  "IsValidator p = (IsCurrentValidator p \<or> IsPendingValidator p)"

definition IsPermissionedValidator :: "Priority \<Rightarrow> bool" where
  "IsPermissionedValidator p =
     (p = SubnetPermissionedValidatorCurrentPriority \<or> p = SubnetPermissionedValidatorPendingPriority)"

text \<open>
  Modelled from the spec: \<open>state.Staker\<close> (not under src/), the record of the spec's data
  model: tx id, node id, subnet id, weight, start time, end time, earliest-stop time,
  potential reward, priority. \<open>EarliestStopTime\<close> reads the earliest-stop time and
  \<open>MarkStakerForRemovalInPlaceBeforeTime\<close> sets it.
\<close>

record Staker =
  TxID :: ID
  NodeID :: NodeID
  SubnetID :: ID
  Weight :: u64
  StartTime :: Time
  EndTime :: Time
  EarliestStopTime :: Time
  PotentialReward :: u64
  Priority :: Priority

definition MarkStakerForRemovalInPlaceBeforeTime :: "Staker \<Rightarrow> Time \<Rightarrow> Staker" where
  "MarkStakerForRemovalInPlaceBeforeTime s stopTime = s\<lparr> EarliestStopTime := stopTime \<rparr>"

subsection \<open>Staking transactions as the verifiers read them\<close>

datatype StakerTxType =
    TAddValidatorTx
  | TAddSubnetValidatorTx
  | TAddDelegatorTx
  | TAddPermissionlessValidatorTx
  | TAddPermissionlessDelegatorTx

text \<open>
  Package \<open>txs\<close> is not under src/. A signed staking transaction is the record of what
  the verifiers and the executor read from it: \<open>txSyntacticVerify\<close> is the outcome of
  \<open>sTx.SyntacticVerify\<close>, \<open>txStartTime\<close>, \<open>txEndTime\<close> and \<open>txStakingPeriod\<close> are
  \<open>tx.StartTime()\<close>, \<open>tx.EndTime()\<close> and \<open>tx.StakingPeriod()\<close>, \<open>txSubnet\<close> is the subnet
  (the primary network for \<open>AddValidatorTx\<close> and \<open>AddDelegatorTx\<close>), \<open>txStakedAssetID\<close> is
  \<open>tx.StakeOuts[0].AssetID()\<close>, \<open>txIsPreContinuousStakingStaker\<close> is the outcome of the
  type assertion to \<open>txs.PreContinuousStakingStaker\<close>, and \<open>txNewStakerError\<close> is the
  error, if any, with which \<open>state.NewCurrentStaker\<close> and \<open>state.NewPendingStaker\<close> refuse
  the transaction.
\<close>

record StakerTx =
  txType :: StakerTxType
  txID :: ID
  txSyntacticVerify :: "vm_error option"
  txNodeID :: NodeID
  txWght :: u64
  txStartTime :: Time
  txEndTime :: Time
  txStakingPeriod :: Duration
  txSubnet :: ID
  txDelegationShares :: "32 word"
  txStakedAssetID :: ID
  txIns :: "TransferableInput list"
  txOuts :: "TransferableOutput list"
  txStakeOuts :: "TransferableOutput list"
  txIsPreContinuousStakingStaker :: bool
  txNewStakerError :: "vm_error option"

text \<open>
  Modelled from the spec: \<open>PendingPriority\<close> and \<open>CurrentPriority\<close> of a staking
  transaction: validator or delegator, permissioned or permissionless, by variant.
\<close>

definition PendingPriority :: "StakerTx \<Rightarrow> Priority" where
  "PendingPriority tx =
     (case txType tx of
        TAddValidatorTx \<Rightarrow> PrimaryNetworkValidatorPendingPriority
      | TAddDelegatorTx \<Rightarrow> PrimaryNetworkDelegatorPendingPriority
      | TAddSubnetValidatorTx \<Rightarrow> SubnetPermissionedValidatorPendingPriority
      | TAddPermissionlessValidatorTx \<Rightarrow>
          if txSubnet tx = PrimaryNetworkID then PrimaryNetworkValidatorPendingPriority
          else SubnetPermissionlessValidatorPendingPriority
      | TAddPermissionlessDelegatorTx \<Rightarrow>
          if txSubnet tx = PrimaryNetworkID then PrimaryNetworkDelegatorPendingPriority
          else SubnetPermissionlessDelegatorPendingPriority)"

definition CurrentPriority :: "StakerTx \<Rightarrow> Priority" where
  "CurrentPriority tx =
     (case txType tx of
        TAddValidatorTx \<Rightarrow> PrimaryNetworkValidatorCurrentPriority
      | TAddDelegatorTx \<Rightarrow> PrimaryNetworkDelegatorCurrentPriority
      | TAddSubnetValidatorTx \<Rightarrow> SubnetPermissionedValidatorCurrentPriority
      | TAddPermissionlessValidatorTx \<Rightarrow>
          if txSubnet tx = PrimaryNetworkID then PrimaryNetworkValidatorCurrentPriority
          else SubnetPermissionlessValidatorCurrentPriority
      | TAddPermissionlessDelegatorTx \<Rightarrow>
          if txSubnet tx = PrimaryNetworkID then PrimaryNetworkDelegatorCurrentPriority
          else SubnetPermissionlessDelegatorCurrentPriority)"

text \<open>
  Modelled from the spec: \<open>state.NewPendingStaker\<close> and \<open>state.NewCurrentStaker\<close> (not
  under src/). The spec gives the record of a staker, the priority of a pending staker
  (derived from the variant) and the start of a current staker (the effective start is
  the chain time, the start time stated by the transaction is ignored). A pending staker
  keeps the start and end time stated by the transaction. The spec names the end-time
  bound of a current staker without saying how it is applied: here a current staker
  lasts for the staking period of the transaction and ends no later than the bound, and
  the earliest-stop time of a new staker is its end time. No property proved below
  depends on the end time or on the earliest-stop time of a new staker.
\<close>

definition NewPendingStaker :: "ID \<Rightarrow> StakerTx \<Rightarrow> vm_error + Staker" where
  "NewPendingStaker txid tx =
     (case txNewStakerError tx of
        Some e \<Rightarrow> Inl e
      | None \<Rightarrow>
          Inr \<lparr> TxID = txid, NodeID = txNodeID tx, SubnetID = txSubnet tx, Weight = txWght tx,
                StartTime = txStartTime tx, EndTime = txEndTime tx,
                EarliestStopTime = txEndTime tx, PotentialReward = 0,
                Priority = PendingPriority tx \<rparr>)"

definition NewCurrentStaker :: "ID \<Rightarrow> StakerTx \<Rightarrow> Time \<Rightarrow> Time \<Rightarrow> u64 \<Rightarrow> vm_error + Staker" where
  "NewCurrentStaker txid tx startTime endTimeBound potentialReward =
     (case txNewStakerError tx of
        Some e \<Rightarrow> Inl e
      | None \<Rightarrow>
          Inr \<lparr> TxID = txid, NodeID = txNodeID tx, SubnetID = txSubnet tx, Weight = txWght tx,
                StartTime = startTime,
                EndTime = min (startTime + txStakingPeriod tx) endTimeBound,
                EarliestStopTime = min (startTime + txStakingPeriod tx) endTimeBound,
                PotentialReward = potentialReward,
                Priority = CurrentPriority tx \<rparr>)"

subsection \<open>Backend and chain state\<close>

record Config =
  MinValidatorStake :: u64
  MaxValidatorStake :: u64
  MinDelegatorStake :: u64
  MinDelegationFee :: "32 word"
  MinStakeDuration :: Duration
  MaxStakeDuration :: Duration
  feeConfig :: StaticConfig
  upgradeConfig :: UpgradeConfig
  ContinuousStakingTime :: Time

text \<open>
  Modelled from the spec: the fork predicate \<open>IsContinuousStakingActivated\<close> of the
  configuration, active from the activation time of the fork on.
\<close>

definition IsContinuousStakingActivated :: "Config \<Rightarrow> Time \<Rightarrow> bool" where
  "IsContinuousStakingActivated cfg t = (ContinuousStakingTime cfg \<le> t)"

text \<open>
  The fields of \<open>txs.TransformSubnetTx\<close> that the rules of a permissionless subnet are
  read from.
\<close>

record TransformSubnetTx_fields =
  tsAssetID :: ID
  tsMinValidatorStake :: u64
  tsMaxValidatorStake :: u64
  tsMinStakeDuration :: "32 word"
  tsMaxStakeDuration :: "32 word"
  tsMinDelegationFee :: "32 word"
  tsMinDelegatorStake :: u64
  tsMaxValidatorWeightFactor :: "8 word"

text \<open>
  A stored transaction as \<open>verifyStopStakerAuthorization\<close> reads it: which interface its
  unsigned body implements, with the owner (an opaque token) or the subnet it names.
\<close>

type_synonym Owner = nat

datatype StoredTx =
    StoredValidatorTx Owner
  | StoredDelegatorTx Owner
  | StoredAddSubnetValidatorTx ID
  | StoredCreateSubnetTx Owner
  | StoredOtherTx

text \<open>
  The writes of the executor to the state diff, in the order in which they are made.
\<close>

datatype DiffOp =
    PutCurrentValidator Staker
  | PutCurrentDelegator Staker
  | PutPendingValidator Staker
  | PutPendingDelegator Staker
  | UpdateCurrentValidator Staker
  | UpdateCurrentDelegator Staker
  | SetCurrentSupply ID u64
  | Consume "TransferableInput list"
  | Produce ID "TransferableOutput list"

type_synonym RewardConfig = nat

text \<open>
  The state (\<open>state.Chain\<close>, \<open>state.Diff\<close>) is an interface whose implementation is not
  under src/. Its reads are parameters: the chain time, \<open>GetValidator\<close> (the helper of
  package \<open>executor\<close> that looks a validator up among the current and the pending ones),
  \<open>GetSubnetTransformation\<close> (\<open>Inr None\<close> for a transaction that is not a
  \<open>TransformSubnetTx\<close>), \<open>canDelegate\<close>, the current stakers in the order of the iterator,
  \<open>GetTx\<close>, the current supply, the reward configuration, and the errors, if any, of the
  two update calls. Its writes are logged in \<open>ops\<close>.
\<close>

record Chain =
  GetTimestamp :: Time
  GetValidator :: "ID \<Rightarrow> NodeID \<Rightarrow> vm_error + Staker"
  GetSubnetTransformation :: "ID \<Rightarrow> vm_error + TransformSubnetTx_fields option"
  canDelegate :: "Staker \<Rightarrow> u64 \<Rightarrow> Staker \<Rightarrow> vm_error + bool"
  GetCurrentStakerIterator :: "vm_error + Staker list"
  GetTx :: "ID \<Rightarrow> vm_error + StoredTx"
  GetCurrentSupply :: "ID \<Rightarrow> vm_error + u64"
  GetRewardConfig :: "ID \<Rightarrow> vm_error + RewardConfig"
  UpdateCurrentValidatorError :: "Staker \<Rightarrow> vm_error option"
  UpdateCurrentDelegatorError :: "Staker \<Rightarrow> vm_error option"
  ops :: "DiffOp list"

text \<open>
  The backend: the configuration, the bootstrapped flag, the asset id of the context,
  and the collaborators that are not under src/: the flow checker (its verdict on the
  transaction with the given inputs, outputs and fee), the subnet authorization, the
  permission check of the feature extension, the reward calculator, and the constant
  \<open>mockable.MaxTime\<close>.
\<close>

record Backend =
  Config :: Config
  Bootstrapped :: bool
  AVAXAssetID :: ID
  VerifySpend :: "ID \<Rightarrow> TransferableInput list \<Rightarrow> TransferableOutput list \<Rightarrow> u64 \<Rightarrow> vm_error option"
  verifyPoASubnetAuthorization :: "ID \<Rightarrow> ID \<Rightarrow> vm_error option"
  VerifyPermission :: "ID \<Rightarrow> Owner \<Rightarrow> vm_error option"
  rewardCalculate :: "RewardConfig \<Rightarrow> Duration \<Rightarrow> u64 \<Rightarrow> u64 \<Rightarrow> u64"
  MaxTime :: Time

subsection \<open>The rules of a subnet\<close>

record addValidatorRules =
  vrAssetID :: ID
  vrMinValidatorStake :: u64
  vrMaxValidatorStake :: u64
  vrMinStakeDuration :: Duration
  vrMaxStakeDuration :: Duration
  vrMinDelegationFee :: "32 word"

definition getValidatorRules :: "Backend \<Rightarrow> Chain \<Rightarrow> ID \<Rightarrow> vm_error + addValidatorRules" where
  "getValidatorRules backend chainState subnetID =
     (if subnetID = PrimaryNetworkID
      then Inr \<lparr> vrAssetID = AVAXAssetID backend,
                 vrMinValidatorStake = MinValidatorStake (Config backend),
                 vrMaxValidatorStake = MaxValidatorStake (Config backend),
                 vrMinStakeDuration = MinStakeDuration (Config backend),
                 vrMaxStakeDuration = MaxStakeDuration (Config backend),
                 vrMinDelegationFee = MinDelegationFee (Config backend) \<rparr>
      else
        (case GetSubnetTransformation chainState subnetID of
           Inl e \<Rightarrow> Inl e
         | Inr None \<Rightarrow> Inl ErrIsNotTransformSubnetTx
         | Inr (Some transformSubnet) \<Rightarrow>
             Inr \<lparr> vrAssetID = tsAssetID transformSubnet,
                   vrMinValidatorStake = tsMinValidatorStake transformSubnet,
                   vrMaxValidatorStake = tsMaxValidatorStake transformSubnet,
                   vrMinStakeDuration = uint (tsMinStakeDuration transformSubnet) * Second,
                   vrMaxStakeDuration = uint (tsMaxStakeDuration transformSubnet) * Second,
                   vrMinDelegationFee = tsMinDelegationFee transformSubnet \<rparr>))"

record addDelegatorRules =
  drAssetID :: ID
  drMinDelegatorStake :: u64
  drMaxValidatorStake :: u64
  drMinStakeDuration :: Duration
  drMaxStakeDuration :: Duration
  drMaxValidatorWeightFactor :: "8 word"

definition getDelegatorRules :: "Backend \<Rightarrow> Chain \<Rightarrow> ID \<Rightarrow> vm_error + addDelegatorRules" where
  "getDelegatorRules backend chainState subnetID =
     (if subnetID = PrimaryNetworkID
      then Inr \<lparr> drAssetID = AVAXAssetID backend,
                 drMinDelegatorStake = MinDelegatorStake (Config backend),
                 drMaxValidatorStake = MaxValidatorStake (Config backend),
                 drMinStakeDuration = MinStakeDuration (Config backend),
                 drMaxStakeDuration = MaxStakeDuration (Config backend),
                 drMaxValidatorWeightFactor = of_nat MaxValidatorWeightFactor \<rparr>
      else
        (case GetSubnetTransformation chainState subnetID of
           Inl e \<Rightarrow> Inl e
         | Inr None \<Rightarrow> Inl ErrIsNotTransformSubnetTx
         | Inr (Some transformSubnet) \<Rightarrow>
             Inr \<lparr> drAssetID = tsAssetID transformSubnet,
                   drMinDelegatorStake = tsMinDelegatorStake transformSubnet,
                   drMaxValidatorStake = tsMaxValidatorStake transformSubnet,
                   drMinStakeDuration = uint (tsMinStakeDuration transformSubnet) * Second,
                   drMaxStakeDuration = uint (tsMaxStakeDuration transformSubnet) * Second,
                   drMaxValidatorWeightFactor = tsMaxValidatorWeightFactor transformSubnet \<rparr>))"

subsection \<open>The checks shared by the verifiers\<close>

text \<open>
  Before the continuous-staking fork the start time must be after the chain time. The
  value is whether the check rejects the transaction.
\<close>

definition startsNotAfter :: "bool \<Rightarrow> Time \<Rightarrow> Time \<Rightarrow> bool" where
  "startsNotAfter isContinuousStakingForkActive currentTimestamp preContinuousStakingStartTime =
     (\<not> isContinuousStakingForkActive \<and> \<not> currentTimestamp < preContinuousStakingStartTime)"

text \<open>
  Before the fork the start time must not be more than \<open>MaxFutureStartTime\<close> ahead of the
  chain time; this check is made last. The value is whether it rejects the transaction.
\<close>

definition startsTooFarAhead :: "bool \<Rightarrow> Time \<Rightarrow> Time \<Rightarrow> bool" where
  "startsTooFarAhead isContinuousStakingForkActive currentTimestamp preContinuousStakingStartTime =
     (\<not> isContinuousStakingForkActive \<and>
      (let maxStartTime = currentTimestamp + MaxFutureStartTime
       in preContinuousStakingStartTime > maxStartTime))"

text \<open>
  The staker handed to \<open>canDelegate\<close>: a current staker from the chain time on after the
  fork (the potential reward does not matter), a pending staker before it.
\<close>

definition newStakerFor :: "Backend \<Rightarrow> bool \<Rightarrow> Time \<Rightarrow> StakerTx \<Rightarrow> vm_error + Staker" where
  "newStakerFor backend isContinuousStakingForkActive currentTimestamp tx =
     (if isContinuousStakingForkActive
      then NewCurrentStaker (txID tx) tx currentTimestamp (MaxTime backend) 0
      else NewPendingStaker (txID tx) tx)"

subsection \<open>The delegation cap\<close>

text \<open>
  The maximum weight that \<open>verifyAddDelegatorTx\<close> hands to \<open>canDelegate\<close>: the checked
  product, refused with \<open>ErrStakeOverflow\<close> on overflow, and capped by the maximum
  validator stake once Apricot Phase 3 is active.
\<close>

definition addDelegatorMaximumWeight :: "Config \<Rightarrow> Time \<Rightarrow> u64 \<Rightarrow> vm_error + u64" where
  "addDelegatorMaximumWeight cfg currentTimestamp weight =
     (case Mul64 (of_nat MaxValidatorWeightFactor) weight of
        None \<Rightarrow> Inl ErrStakeOverflow
      | Some maximumWeight \<Rightarrow>
          if IsApricotPhase3Activated (upgradeConfig cfg) currentTimestamp
          then Inr (min maximumWeight (MaxValidatorStake cfg))
          else Inr maximumWeight)"

text \<open>
  The maximum weight that \<open>verifyAddPermissionlessDelegatorTx\<close> hands to \<open>canDelegate\<close>:
  the product, \<open>MaxUint64\<close> on overflow, capped by the maximum validator stake.
\<close>

definition permissionlessDelegatorMaximumWeight :: "addDelegatorRules \<Rightarrow> u64 \<Rightarrow> u64" where
  "permissionlessDelegatorMaximumWeight delegatorRules weight =
     (let maximumWeight =
            (case Mul64 (ucast (drMaxValidatorWeightFactor delegatorRules)) weight of
               None \<Rightarrow> MaxUint64
             | Some m \<Rightarrow> m)
      in min maximumWeight (drMaxValidatorStake delegatorRules))"

subsection \<open>The verifiers\<close>



definition verifyAddDelegatorTx ::
  "Backend \<Rightarrow> Chain \<Rightarrow> StakerTx \<Rightarrow> vm_error + TransferableOutput list \<times> Time" where
  "verifyAddDelegatorTx backend chainState tx =
     (case txSyntacticVerify tx of
        Some e \<Rightarrow> Inl e
      | None \<Rightarrow>
     (let duration = txStakingPeriod tx in
      if duration < MinStakeDuration (Config backend) then Inl ErrStakeTooShort
      else if duration > MaxStakeDuration (Config backend) then Inl ErrStakeTooLong
      else if txWght tx < MinDelegatorStake (Config backend) then Inl ErrWeightTooSmall
      else
     (let outs = txOuts tx @ txStakeOuts tx in
      case GetValidator chainState PrimaryNetworkID (txNodeID tx) of
        Inl err \<Rightarrow> Inl err
      | Inr primaryNetworkValidator \<Rightarrow>
      if \<not> Bootstrapped backend then Inr (outs, EndTime primaryNetworkValidator)
      else
     (let currentTimestamp = GetTimestamp chainState;
          preContinuousStakingStartTime = txStartTime tx;
          isContinuousStakingForkActive =
            IsContinuousStakingActivated (Config backend) currentTimestamp
      in
      if startsNotAfter isContinuousStakingForkActive currentTimestamp preContinuousStakingStartTime
        then Inl ErrTimestampNotBeforeStartTime
      else
     (case addDelegatorMaximumWeight (Config backend) currentTimestamp
             (Weight primaryNetworkValidator) of
        Inl err \<Rightarrow> Inl err
      | Inr maximumWeight \<Rightarrow>
     (case newStakerFor backend isContinuousStakingForkActive currentTimestamp tx of
        Inl err \<Rightarrow> Inl err
      | Inr newStaker \<Rightarrow>
     (case canDelegate chainState primaryNetworkValidator maximumWeight newStaker of
        Inl err \<Rightarrow> Inl err
      | Inr can \<Rightarrow>
          if \<not> can then Inl ErrOverDelegated
          else
     (case VerifySpend backend (txID tx) (txIns tx) outs
             (AddPrimaryNetworkDelegatorFee (feeConfig (Config backend))) of
        Some _ \<Rightarrow> Inl ErrFlowCheckFailed
      | None \<Rightarrow>
          if startsTooFarAhead isContinuousStakingForkActive currentTimestamp
               preContinuousStakingStartTime
          then Inl ErrFutureStakeTime
          else Inr (outs, EndTime primaryNetworkValidator)))))))))"


definition verifyAddPermissionlessDelegatorTx ::
  "Backend \<Rightarrow> Chain \<Rightarrow> StakerTx \<Rightarrow> vm_error + Time" where
  "verifyAddPermissionlessDelegatorTx backend chainState tx =
     (case txSyntacticVerify tx of
        Some e \<Rightarrow> Inl e
      | None \<Rightarrow>
     (case GetValidator chainState (txSubnet tx) (txNodeID tx) of
        Inl err \<Rightarrow> Inl err
      | Inr validator \<Rightarrow>
      if \<not> Bootstrapped backend then Inr (EndTime validator)
      else
     (let currentTimestamp = GetTimestamp chainState;
          preContinuousStakingStartTime = txStartTime tx;
          isContinuousStakingForkActive =
            IsContinuousStakingActivated (Config backend) currentTimestamp
      in
      if startsNotAfter isContinuousStakingForkActive currentTimestamp preContinuousStakingStartTime
        then Inl ErrMsgChainTimestampNotBeforeValidatorStart
      else
     (case getDelegatorRules backend chainState (txSubnet tx) of
        Inl err \<Rightarrow> Inl err
      | Inr delegatorRules \<Rightarrow>
     (let duration = txStakingPeriod tx;
          stakedAssetID = txStakedAssetID tx
      in
      if txWght tx < drMinDelegatorStake delegatorRules then Inl ErrWeightTooSmall
      else if duration < drMinStakeDuration delegatorRules then Inl ErrStakeTooShort
      else if duration > drMaxStakeDuration delegatorRules then Inl ErrStakeTooLong
      else if stakedAssetID \<noteq> drAssetID delegatorRules then Inl ErrWrongStakedAssetID
      else
     (let maximumWeight = permissionlessDelegatorMaximumWeight delegatorRules (Weight validator) in
      case newStakerFor backend isContinuousStakingForkActive currentTimestamp tx of
        Inl err \<Rightarrow> Inl err
      | Inr newStaker \<Rightarrow>
     (case canDelegate chainState validator maximumWeight newStaker of
        Inl err \<Rightarrow> Inl err
      | Inr can \<Rightarrow>
          if \<not> can then Inl ErrOverDelegated
          else
     (let outs = txOuts tx @ txStakeOuts tx in
      case (if txSubnet tx \<noteq> PrimaryNetworkID
            then (if IsPermissionedValidator (Priority validator)
                  then Inl ErrDelegateToPermissionedValidator
                  else Inr (AddSubnetDelegatorFee (feeConfig (Config backend))))
            else Inr (AddPrimaryNetworkDelegatorFee (feeConfig (Config backend)))) of
        Inl err \<Rightarrow> Inl err
      | Inr txFee \<Rightarrow>
     (case VerifySpend backend (txID tx) (txIns tx) outs txFee of
        Some _ \<Rightarrow> Inl ErrFlowCheckFailed
      | None \<Rightarrow>
          if startsTooFarAhead isContinuousStakingForkActive currentTimestamp
               preContinuousStakingStartTime
          then Inl ErrFutureStakeTime
          else Inr (EndTime validator))))))))))"

section \<open>Standard executor (vms/platformvm/txs/executor/standard_tx_executor.go)\<close>

text \<open>A write to the diff appends to its log.\<close>

definition logWrite :: "DiffOp \<Rightarrow> Chain \<Rightarrow> Chain" where
  "logWrite operation st = st\<lparr> ops := ops st @ [operation] \<rparr>"









subsection \<open>Stopping a staker\<close>

text \<open>
  A signed \<open>StopStakerTx\<close> as the verifier reads it: the id of the transaction, the
  outcome of its syntactic verification, the id of the transaction that created the
  staker to stop, its inputs and outputs, and the number of its credentials.
\<close>

record StopStakerTx =
  stopID :: ID
  stopSyntacticVerify :: "vm_error option"
  stopTxID :: ID
  stopIns :: "TransferableInput list"
  stopOuts :: "TransferableOutput list"
  stopNumCreds :: nat

definition verifyStopStakerAuthorization ::
  "Backend \<Rightarrow> Chain \<Rightarrow> StopStakerTx \<Rightarrow> ID \<Rightarrow> vm_error option" where
  "verifyStopStakerAuthorization backend chainState sTx stakerTxID =
     (if stopNumCreds sTx = 0 then Some ErrWrongNumberOfCredentials
      else
        (case GetTx chainState stakerTxID of
           Inl err \<Rightarrow> Some ErrMsgStakerTxNotFound
         | Inr stakerTx \<Rightarrow>
             (case (case stakerTx of
                      StoredValidatorTx owner \<Rightarrow> Inr owner
                    | StoredDelegatorTx owner \<Rightarrow> Inr owner
                    | StoredAddSubnetValidatorTx subnet \<Rightarrow>
                        (case GetTx chainState subnet of
                           Inl err \<Rightarrow> Inl ErrMsgSubnetTxNotFound
                         | Inr (StoredCreateSubnetTx owner) \<Rightarrow> Inr owner
                         | Inr _ \<Rightarrow> Inl ErrWrongTxType)
                    | _ \<Rightarrow> Inl ErrMsgUnhandledStakerType) of
                Inl err \<Rightarrow> Some err
              | Inr stakerOwner \<Rightarrow>
                  (case VerifyPermission backend (stopID sTx) stakerOwner of
                     Some _ \<Rightarrow> Some ErrUnauthorizedStakerStopping
                   | None \<Rightarrow> None))))"

text \<open>The first loop of \<open>verifyStopStakerTx\<close>: the first current staker with the tx id.\<close>

fun findStaker :: "ID \<Rightarrow> Staker list \<Rightarrow> Staker option" where
  "findStaker txid [] = None"
| "findStaker txid (s # stakers) = (if TxID s = txid then Some s else findStaker txid stakers)"

text \<open>
  The second loop: the other current stakers of the same node, appended to the result in
  the order of the iterator.
\<close>

fun sameNodeStakers :: "Staker \<Rightarrow> Staker list \<Rightarrow> Staker list \<Rightarrow> Staker list" where
  "sameNodeStakers stakerToStop [] res = res"
| "sameNodeStakers stakerToStop (staker # stakers) res =
     (if NodeID staker = NodeID stakerToStop \<and> TxID staker \<noteq> TxID stakerToStop
      then sameNodeStakers stakerToStop stakers (res @ [staker])
      else sameNodeStakers stakerToStop stakers res)"

definition verifyStopStakerTx ::
  "Backend \<Rightarrow> Chain \<Rightarrow> StopStakerTx \<Rightarrow> vm_error + Staker list \<times> Time" where
  "verifyStopStakerTx backend chainState sTx =
     (if \<not> IsContinuousStakingActivated (Config backend) (GetTimestamp chainState)
      then Inl ErrMsgStopStakerBeforeFork
      else
     (case stopSyntacticVerify sTx of
        Some err \<Rightarrow> Inl err
      | None \<Rightarrow>
     (case GetCurrentStakerIterator chainState of
        Inl err \<Rightarrow> Inl err
      | Inr stakers \<Rightarrow>
     (case findStaker (stopTxID sTx) stakers of
        None \<Rightarrow> Inl ErrMsgStakerToStopNotFound
      | Some stakerToStop \<Rightarrow>
     (case (if Bootstrapped backend
            then (case verifyStopStakerAuthorization backend chainState sTx (stopTxID sTx) of
                    Some err \<Rightarrow> Some err
                  | None \<Rightarrow>
                      (case VerifySpend backend (stopID sTx) (stopIns sTx) (stopOuts sTx)
                              (TxFee (feeConfig (Config backend))) of
                         Some _ \<Rightarrow> Some ErrFlowCheckFailed
                       | None \<Rightarrow> None))
            else None) of
        Some err \<Rightarrow> Inl err
      | None \<Rightarrow>
          if \<not> IsValidator (Priority stakerToStop) \<or> SubnetID stakerToStop \<noteq> PrimaryNetworkID
          then Inr ([stakerToStop], EarliestStopTime stakerToStop)
          else
            (case GetCurrentStakerIterator chainState of
               Inl err \<Rightarrow> Inl err
             | Inr stakers' \<Rightarrow>
                 Inr (sameNodeStakers stakerToStop stakers' [stakerToStop],
                      EarliestStopTime stakerToStop)))))))"

text \<open>
  The loop of the executor over the stakers to stop: each is marked with the stop time
  and written back as a validator or as a delegator; the first error ends the loop.
\<close>

fun stopStakers :: "Staker list \<Rightarrow> Time \<Rightarrow> Chain \<Rightarrow> vm_error + Chain" where
  "stopStakers [] stopTime st = Inr st"
| "stopStakers (toStop # stakers) stopTime st =
     (let marked = MarkStakerForRemovalInPlaceBeforeTime toStop stopTime in
      if IsValidator (Priority marked)
      then (case UpdateCurrentValidatorError st marked of
              Some err \<Rightarrow> Inl err
            | None \<Rightarrow> stopStakers stakers stopTime (logWrite (UpdateCurrentValidator marked) st))
      else (case UpdateCurrentDelegatorError st marked of
              Some err \<Rightarrow> Inl err
            | None \<Rightarrow> stopStakers stakers stopTime (logWrite (UpdateCurrentDelegator marked) st)))"

definition execStopStakerTx :: "Backend \<Rightarrow> StopStakerTx \<Rightarrow> Chain \<Rightarrow> vm_error + Chain" where
  "execStopStakerTx backend tx st =
     (case verifyStopStakerTx backend st tx of
        Inl err \<Rightarrow> Inl err
      | Inr (stakers, stopTime) \<Rightarrow>
          (case stopStakers stakers stopTime st of
             Inl err \<Rightarrow> Inl err
           | Inr st' \<Rightarrow>
               Inr (logWrite (Produce (stopID tx) (stopOuts tx)) (logWrite (Consume (stopIns tx)) st'))))"

subsection \<open>The writes of an execution\<close>

text \<open>The write that stops one staker, and the error, if any, of making it.\<close>

definition stopWrite :: "Time \<Rightarrow> Staker \<Rightarrow> DiffOp" where
  "stopWrite stopTime s =
     (if IsValidator (Priority s)
      then UpdateCurrentValidator (s\<lparr> EarliestStopTime := stopTime \<rparr>)
      else UpdateCurrentDelegator (s\<lparr> EarliestStopTime := stopTime \<rparr>))"

definition stopWriteError :: "Chain \<Rightarrow> Time \<Rightarrow> Staker \<Rightarrow> vm_error option" where
  "stopWriteError st stopTime s =
     (if IsValidator (Priority s)
      then UpdateCurrentValidatorError st (s\<lparr> EarliestStopTime := stopTime \<rparr>)
      else UpdateCurrentDelegatorError st (s\<lparr> EarliestStopTime := stopTime \<rparr>))"

text \<open>The error of the first write that fails when the stakers are stopped in order.\<close>

fun firstStopError :: "Chain \<Rightarrow> Time \<Rightarrow> Staker list \<Rightarrow> vm_error option" where
  "firstStopError st stopTime [] = None"
| "firstStopError st stopTime (s # stakers) =
     (case stopWriteError st stopTime s of
        Some err \<Rightarrow> Some err
      | None \<Rightarrow> firstStopError st stopTime stakers)"




subsection \<open>Example backend, chain and transactions\<close>

definition exampleConfig :: Config where
  "exampleConfig =
     \<lparr> MinValidatorStake = 2000, MaxValidatorStake = 3000000, MinDelegatorStake = 25,
       MinDelegationFee = 20000, MinStakeDuration = 10, MaxStakeDuration = 1000,
       feeConfig = exampleStaticConfig, upgradeConfig = \<lparr> ApricotPhase3Time = 0 \<rparr>,
       ContinuousStakingTime = 1000000 \<rparr>"

definition exampleBackend :: Backend where
  "exampleBackend =
     \<lparr> Config = exampleConfig, Bootstrapped = True, AVAXAssetID = 9,
       VerifySpend = (\<lambda>txid ins outs fee. None),
       verifyPoASubnetAuthorization = (\<lambda>txid subnet. None),
       VerifyPermission = (\<lambda>txid owner. None),
       rewardCalculate = (\<lambda>cfg duration weight supply. 7),
       MaxTime = 1000000000000 \<rparr>"

definition examplePrimaryValidator :: Staker where
  "examplePrimaryValidator =
     \<lparr> TxID = 100, NodeID = 1, SubnetID = PrimaryNetworkID, Weight = 1000, StartTime = 0,
       EndTime = 100000, EarliestStopTime = 100000, PotentialReward = 0,
       Priority = PrimaryNetworkValidatorCurrentPriority \<rparr>"

definition exampleChain :: Chain where
  "exampleChain =
     \<lparr> GetTimestamp = 500,
       GetValidator = (\<lambda>subnet node.
          if subnet = PrimaryNetworkID \<and> node = 1 then Inr examplePrimaryValidator
          else Inl ErrNotFound),
       GetSubnetTransformation = (\<lambda>subnet. Inl ErrNotFound),
       canDelegate = (\<lambda>validator maximumWeight newStaker.
          Inr (unat (Weight validator) + 3000 + unat (Weight newStaker) \<le> unat maximumWeight)),
       GetCurrentStakerIterator = Inr [examplePrimaryValidator],
       GetTx = (\<lambda>txid. Inl ErrNotFound),
       GetCurrentSupply = (\<lambda>subnet. Inr 1000000),
       GetRewardConfig = (\<lambda>subnet. Inr 0),
       UpdateCurrentValidatorError = (\<lambda>s. None),
       UpdateCurrentDelegatorError = (\<lambda>s. None),
       ops = [] \<rparr>"

definition exampleHeavyChain :: Chain where
  "exampleHeavyChain =
     exampleChain\<lparr> GetValidator := (\<lambda>subnet node.
        Inr (examplePrimaryValidator\<lparr> Weight := 2 ^ 63 \<rparr>)) \<rparr>"

definition exampleDelegatorTx :: StakerTx where
  "exampleDelegatorTx =
     \<lparr> txType = TAddDelegatorTx, txID = 200, txSyntacticVerify = None, txNodeID = 1,
       txWght = 1000, txStartTime = 600, txEndTime = 700, txStakingPeriod = 100,
       txSubnet = PrimaryNetworkID, txDelegationShares = 0, txStakedAssetID = 9,
       txIns = [1], txOuts = [2], txStakeOuts = [3],
       txIsPreContinuousStakingStaker = True, txNewStakerError = None \<rparr>"

definition examplePermissionlessDelegatorTx :: StakerTx where
  "examplePermissionlessDelegatorTx =
     exampleDelegatorTx\<lparr> txType := TAddPermissionlessDelegatorTx, txID := 201 \<rparr>"

definition examplePrimaryDelegatorRules :: addDelegatorRules where
  "examplePrimaryDelegatorRules =
     \<lparr> drAssetID = 9, drMinDelegatorStake = 25, drMaxValidatorStake = 3000000,
       drMinStakeDuration = 10, drMaxStakeDuration = 1000, drMaxValidatorWeightFactor = 5 \<rparr>"

definition exampleDelegatorA :: Staker where
  "exampleDelegatorA =
     \<lparr> TxID = 101, NodeID = 1, SubnetID = PrimaryNetworkID, Weight = 50, StartTime = 10,
       EndTime = 95000, EarliestStopTime = 95000, PotentialReward = 0,
       Priority = PrimaryNetworkDelegatorCurrentPriority \<rparr>"

definition exampleDelegatorB :: Staker where
  "exampleDelegatorB = exampleDelegatorA\<lparr> TxID := 102, EndTime := 96000, EarliestStopTime := 96000 \<rparr>"

definition exampleSubnetValidator :: Staker where
  "exampleSubnetValidator =
     \<lparr> TxID = 103, NodeID = 1, SubnetID = 7, Weight = 1, StartTime = 20,
       EndTime = 97000, EarliestStopTime = 97000, PotentialReward = 0,
       Priority = SubnetPermissionedValidatorCurrentPriority \<rparr>"

definition exampleOtherValidator :: Staker where
  "exampleOtherValidator = examplePrimaryValidator\<lparr> TxID := 104, NodeID := 2 \<rparr>"

definition exampleStopChain :: Chain where
  "exampleStopChain =
     exampleChain\<lparr> GetTimestamp := 2000000,
       GetCurrentStakerIterator :=
         Inr [exampleDelegatorA, exampleOtherValidator, examplePrimaryValidator,
              exampleSubnetValidator, exampleDelegatorB],
       GetTx := (\<lambda>txid. if txid = 100 then Inr (StoredValidatorTx 5) else Inl ErrNotFound) \<rparr>"

text \<open>The same chain, on which the update of a delegator fails.\<close>

definition exampleFailingStopChain :: Chain where
  "exampleFailingStopChain =
     exampleStopChain\<lparr> UpdateCurrentDelegatorError := (\<lambda>s. Some (ErrOther 7)) \<rparr>"

definition exampleStopStakerTx :: StopStakerTx where
  "exampleStopStakerTx =
     \<lparr> stopID = 300, stopSyntacticVerify = None, stopTxID = 100, stopIns = [4],
       stopOuts = [5], stopNumCreds = 2 \<rparr>"






section \<open>Properties of the gossip tracker\<close>

subsection \<open>Bitsets\<close>

lemma bs_Len_bit: "bit b i \<Longrightarrow> i < bs_Len b"
proof (induction b arbitrary: i rule: bs_Len.induct)
  case (1 b)
  from "1.prems" have nz: "b \<noteq> 0" by (rule_tac ccontr) simp
  show ?case
  proof (cases i)
    case 0
    with nz show ?thesis by (simp add: bs_Len.simps)
  next
    case (Suc j)
    with "1.prems" have "bit (b div 2) j" by (simp add: bit_Suc)
    with "1.IH" nz have "j < bs_Len (b div 2)" by simp
    with nz Suc show ?thesis by (simp add: bs_Len.simps)
  qed
qed

lemma bit_bs_Difference: "bit (bs_Difference a b) i \<longleftrightarrow> bit a i \<and> \<not> bit b i"
  by (simp add: bs_Difference_def bit_nat_iff bit_and_iff bit_not_iff bit_of_nat_iff_bit)

lemma bit_bs_Union_empty: "bs_Union NewBigBitSet a = a"
  by (simp add: bs_Union_def NewBigBitSet_def)

lemma unknownLoop_eq:
  "unknownLoop i2p u limit i result =
     result @ take (nat limit - length result) (map (peerAt i2p) (filter (bit u) [i..<bs_Len u]))"
proof (induction i2p u limit i result rule: unknownLoop.induct)
  case (1 i2p u limit i result)
  show ?case
  proof (cases "i < bs_Len u")
    case False
    then show ?thesis by (simp add: unknownLoop.simps)
  next
    case True
    then have up: "[i..<bs_Len u] = i # [Suc i..<bs_Len u]" by (simp add: upt_conv_Cons)
    show ?thesis
    proof (cases "bit u i")
      case False
      with True "1.IH"(1) up show ?thesis
        by (subst unknownLoop.simps) (simp add: bs_Contains_def)
    next
      case bt: True
      show ?thesis
      proof (cases "int (length result) \<ge> limit")
        case True
        then have "nat limit - length result = 0" by simp
        with True \<open>i < bs_Len u\<close> bt show ?thesis
          by (subst unknownLoop.simps) (simp add: bs_Contains_def)
      next
        case False
        then have "nat limit - length result = Suc (nat limit - Suc (length result))" by linarith
        with False \<open>i < bs_Len u\<close> bt "1.IH"(2) up show ?thesis
          by (subst unknownLoop.simps) (simp add: bs_Contains_def)
      qed
    qed
  qed
qed

lemma finite_bits: "finite {i. bit (b::nat) i}"
proof -
  have "{i. bit b i} \<subseteq> {..<bs_Len b}" using bs_Len_bit by auto
  then show ?thesis using finite_subset by blast
qed

lemma filter_bits_sorted_list:
  "filter (bit u) [0..<bs_Len u] = sorted_list_of_set {i. bit (u::nat) i}"
proof -
  have "{i. bit u i} = {i \<in> set [0..<bs_Len u]. bit u i}" using bs_Len_bit by auto
  then have "sorted_list_of_set {i. bit u i} = sorted_list_of_set (set (filter (bit u) [0..<bs_Len u]))"
    by simp
  also have "\<dots> = filter (bit u) [0..<bs_Len u]"
    by (rule sorted_list_of_set.idem_if_sorted_distinct) (simp_all add: sorted_wrt_filter)
  finally show ?thesis by simp
qed

subsection \<open>What \<open>GetUnknown\<close> returns\<close>

text \<open>
  C8. For a tracked peer \<open>p\<close> and a limit of at least one, \<open>GetUnknown\<close> succeeds and
  returns the node ids at the indices whose bit is set in \<open>local\<close> and not set in
  \<open>knownPeers[p]\<close>, in increasing order of the index (from the least-significant bit
  upward), cut off after \<open>limit\<close> elements. The tracker is left as it was.
\<close>

theorem GetUnknown_lists_unknown_peers:
  assumes "knownPeers g p = Some known" and "1 \<le> limit"
  shows "GetUnknown p limit g =
           ((Some (take (nat limit)
                     (map (peerAt (indicesToPeers g))
                        (sorted_list_of_set {i. bit (local_bits g) i \<and> \<not> bit known i}))),
             True), g)"
proof -
  have "{i. bit (local_bits g) i \<and> \<not> bit known i} = {i. bit (bs_Difference (local_bits g) known) i}"
    by (simp add: bit_bs_Difference)
  with assms show ?thesis
    by (simp add: GetUnknown_def bit_bs_Union_empty unknownLoop_eq filter_bits_sorted_list)
qed

theorem GetUnknown_lists_unknown_peers_witness:
  "knownPeers exampleTracker 3 = Some 1 \<and> (1::int) \<le> 8 \<and>
   fst (GetUnknown 3 8 exampleTracker) = (Some [2, 3], True) \<and>
   take (nat 8) (map (peerAt (indicesToPeers exampleTracker))
       (sorted_list_of_set {i. bit (local_bits exampleTracker) i \<and> \<not> bit (1::nat) i})) = [2, 3]"
proof -
  have k: "knownPeers exampleTracker 3 = Some 1" by (simp add: exampleTracker_def)
  have l: "(1::int) \<le> 8" by simp
  have e: "fst (GetUnknown 3 8 exampleTracker) = (Some [2, 3], True)" by code_simp
  show ?thesis using GetUnknown_lists_unknown_peers [OF k l] k e by simp
qed

text \<open>
  C10. \<open>GetUnknown\<close> returns the nil slice and \<open>false\<close>, and leaves the tracker as it was,
  whenever the limit is at most zero or the peer is not tracked.
\<close>

theorem GetUnknown_refuses:
  assumes "limit \<le> 0 \<or> knownPeers g p = None"
  shows "GetUnknown p limit g = ((None, False), g)"
  using assms by (auto simp: GetUnknown_def)

theorem GetUnknown_refuses_witness:
  "GetUnknown 3 0 exampleTracker = ((None, False), exampleTracker) \<and>
   knownPeers exampleTracker 9 = None \<and>
   GetUnknown 9 5 exampleTracker = ((None, False), exampleTracker)"
  using GetUnknown_refuses [of 0 exampleTracker 3] GetUnknown_refuses [of 5 exampleTracker 9]
  by (simp add: exampleTracker_def)

subsection \<open>Well-formedness is kept by every operation\<close>

lemma wf_New: "tracker_wf NewGossipTracker"
  by (simp add: tracker_wf_def NewGossipTracker_def numPeers_def NewBigBitSet_def)

lemma wf_Add:
  assumes wf: "tracker_wf g"
  shows "tracker_wf (snd (Add p g))"
proof (cases "peersToIndices g p")
  case (Some a)
  with wf show ?thesis by (simp add: Add_def)
next
  case None
  let ?n = "numPeers g"
  from wf have fin: "finite (dom (peersToIndices g))"
    and dk: "dom (knownPeers g) = dom (peersToIndices g)"
    and bij: "\<And>q i. peersToIndices g q = Some i \<longleftrightarrow> indicesToPeers g i = Some q"
    and di: "dom (indicesToPeers g) = {..<?n}"
    and lb: "\<And>i. bit (local_bits g) i \<longleftrightarrow> i < ?n"
    and kl: "\<And>q k i. knownPeers g q = Some k \<Longrightarrow> bit k i \<Longrightarrow> bit (local_bits g) i"
    by (auto simp: tracker_wf_def)
  from None have pn: "p \<notin> dom (peersToIndices g)" by auto
  from di have nn: "indicesToPeers g ?n = None" by auto
  have card': "card (dom ((peersToIndices g)(p \<mapsto> ?n))) = Suc ?n"
    using fin pn by (simp add: numPeers_def)
  have eq: "snd (Add p g) = g\<lparr> peersToIndices := (peersToIndices g)(p \<mapsto> ?n),
                  knownPeers := (knownPeers g)(p \<mapsto> NewBigBitSet),
                  indicesToPeers := (indicesToPeers g)(?n \<mapsto> p),
                  local_bits := bs_Add ?n (local_bits g) \<rparr>"
    using None by (simp add: Add_def Let_def)
  have c1: "finite (dom (peersToIndices (snd (Add p g))))" using fin by (simp add: eq)
  have c2: "dom (knownPeers (snd (Add p g))) = dom (peersToIndices (snd (Add p g)))"
    using dk by (simp add: eq)
  have np: "numPeers (snd (Add p g)) = Suc ?n" using card' by (simp add: eq numPeers_def)
  have b1: "\<And>q i. peersToIndices g q = Some i \<Longrightarrow> indicesToPeers g i = Some q"
    and b2: "\<And>q i. indicesToPeers g i = Some q \<Longrightarrow> peersToIndices g q = Some i"
    using bij by auto
  have c3: "\<forall>q i. peersToIndices (snd (Add p g)) q = Some i \<longleftrightarrow> indicesToPeers (snd (Add p g)) i = Some q"
  proof (intro allI)
    fix q i
    show "peersToIndices (snd (Add p g)) q = Some i \<longleftrightarrow> indicesToPeers (snd (Add p g)) i = Some q"
      using bij [of q i] bij [of p i] bij [of q ?n] nn None by (auto simp: eq)
  qed
  have c4: "dom (indicesToPeers (snd (Add p g))) = {..<numPeers (snd (Add p g))}"
    unfolding np using di by (auto simp: eq)
  have c5: "\<forall>i. bit (local_bits (snd (Add p g))) i \<longleftrightarrow> i < numPeers (snd (Add p g))"
  proof (intro allI)
    fix i show "bit (local_bits (snd (Add p g))) i \<longleftrightarrow> i < numPeers (snd (Add p g))"
      unfolding np using lb [of i] by (simp add: eq bs_Add_def bit_set_bit_iff less_Suc_eq) blast
  qed
  have c6: "\<forall>q k i. knownPeers (snd (Add p g)) q = Some k \<longrightarrow> bit k i \<longrightarrow> bit (local_bits (snd (Add p g))) i"
  proof (intro allI impI)
    fix q k i assume a: "knownPeers (snd (Add p g)) q = Some k" "bit k i"
    show "bit (local_bits (snd (Add p g))) i"
    proof (cases "q = p")
      case True
      with a show ?thesis by (simp add: eq NewBigBitSet_def)
    next
      case False
      with a have "bit (local_bits g) i" using kl [of q k i] by (simp add: eq)
      then show ?thesis by (simp add: eq bs_Add_def bit_set_bit_iff)
    qed
  qed
  show ?thesis unfolding tracker_wf_def by (intro conjI c1 c2 c3 c4 c5 c6)
qed

lemma learnedBits_bits:
  "learnedBits p2i ns bs = Some bs' \<Longrightarrow> bit bs' i \<Longrightarrow> bit bs i \<or> (\<exists>q. p2i q = Some i)"
proof (induction ns arbitrary: bs)
  case Nil
  then show ?case by simp
next
  case (Cons n ns)
  then show ?case
    by (fastforce simp: bs_Add_def bit_set_bit_iff split: option.splits)
qed

lemma wf_UpdateKnown:
  assumes wf: "tracker_wf g"
  shows "tracker_wf (snd (UpdateKnown p learned g))"
proof (cases "knownPeers g p")
  case None
  with wf show ?thesis by (simp add: UpdateKnown_def)
next
  case (Some known)
  show ?thesis
  proof (cases "learnedBits (peersToIndices g) learned NewBigBitSet")
    case None
    with Some wf show ?thesis by (simp add: UpdateKnown_def)
  next
    case (Some bs)
    from wf have dk: "dom (knownPeers g) = dom (peersToIndices g)"
      and bij: "\<And>q i. peersToIndices g q = Some i \<longleftrightarrow> indicesToPeers g i = Some q"
      and di: "dom (indicesToPeers g) = {..<numPeers g}"
      and lb: "\<And>i. bit (local_bits g) i \<longleftrightarrow> i < numPeers g"
      and kl: "\<And>q k i. knownPeers g q = Some k \<Longrightarrow> bit k i \<Longrightarrow> bit (local_bits g) i"
      by (auto simp: tracker_wf_def)
    have eq: "snd (UpdateKnown p learned g) = g\<lparr> knownPeers := (knownPeers g)(p \<mapsto> bs_Union known bs) \<rparr>"
      using Some \<open>knownPeers g p = Some known\<close> by (simp add: UpdateKnown_def)
    have bsl: "bit (local_bits g) i" if "bit bs i" for i
    proof -
      from learnedBits_bits [OF Some that] obtain q where "peersToIndices g q = Some i"
        by (auto simp: NewBigBitSet_def)
      then have "indicesToPeers g i = Some q" using bij by simp
      then have "i \<in> dom (indicesToPeers g)" by auto
      then show ?thesis using di lb by auto
    qed
    have c2: "dom (knownPeers (snd (UpdateKnown p learned g))) = dom (peersToIndices g)"
      using dk \<open>knownPeers g p = Some known\<close> by (auto simp: eq)
    have c6: "\<forall>q k i. knownPeers (snd (UpdateKnown p learned g)) q = Some k \<longrightarrow> bit k i \<longrightarrow> bit (local_bits g) i"
      using kl bsl \<open>knownPeers g p = Some known\<close>
      by (auto simp: eq bs_Union_def bit_or_iff split: if_splits)
    from wf c2 c6 show ?thesis
      unfolding tracker_wf_def by (simp add: eq numPeers_def)
  qed
qed

lemma bit_swapTail:
  "bit (swapTail idx tail k) i \<longleftrightarrow> i \<noteq> tail \<and> (if i = idx then bit k tail else bit k i)"
  by (auto simp: swapTail_def bs_Remove_def bs_Add_def bs_Contains_def
        bit_unset_bit_iff bit_set_bit_iff)

lemma wf_Remove:
  assumes wf: "tracker_wf g"
  shows "tracker_wf (snd (Remove p g))"
proof (cases "peersToIndices g p")
  case None
  with wf show ?thesis by (simp add: Remove_def)
next
  case (Some idx)
  let ?n = "numPeers g"
  let ?tail = "?n - 1"
  let ?g' = "snd (Remove p g)"
  from wf have fin: "finite (dom (peersToIndices g))"
    and dk: "dom (knownPeers g) = dom (peersToIndices g)"
    and bij: "\<And>q i. peersToIndices g q = Some i \<longleftrightarrow> indicesToPeers g i = Some q"
    and di: "dom (indicesToPeers g) = {..<?n}"
    and lb: "\<And>i. bit (local_bits g) i \<longleftrightarrow> i < ?n"
    and kl: "\<And>q k i. knownPeers g q = Some k \<Longrightarrow> bit k i \<Longrightarrow> bit (local_bits g) i"
    by (auto simp: tracker_wf_def)
  from Some bij [of p idx] have Iidx: "indicesToPeers g idx = Some p" by simp
  then have "idx \<in> dom (indicesToPeers g)" by auto
  with di have idx_lt: "idx < ?n" by simp
  then have "?tail \<in> dom (indicesToPeers g)" using di by simp
  then obtain lp where Itail: "indicesToPeers g ?tail = Some lp" by auto
  with bij [of lp ?tail] have Plp: "peersToIndices g lp = Some ?tail" by simp
  have ev: "peerAt (indicesToPeers g) idx = p" using Iidx by (simp add: peerAt_def)
  have la: "peerAt (indicesToPeers g) ?tail = lp" using Itail by (simp add: peerAt_def)
  have eq: "?g' =
      g\<lparr> knownPeers := (\<lambda>q. map_option (swapTail idx ?tail) (((knownPeers g)(p := None)) q)),
         peersToIndices := (if idx \<noteq> ?tail then (peersToIndices g)(lp \<mapsto> idx)
                            else peersToIndices g)(p := None),
         indicesToPeers := (if idx \<noteq> ?tail then (indicesToPeers g)(idx \<mapsto> lp)
                            else indicesToPeers g)(?tail := None),
         local_bits := bs_Remove ?tail (local_bits g) \<rparr>"
    using Some ev la by (simp add: Remove_def Let_def)
  have domP: "dom (peersToIndices ?g') = dom (peersToIndices g) - {p}"
    using Plp by (auto simp: eq split: if_splits)
  have c1: "finite (dom (peersToIndices ?g'))" using fin by (simp add: domP)
  have "dom (knownPeers ?g') = dom (knownPeers g) - {p}"
    by (auto simp: eq split: if_splits)
  then have c2: "dom (knownPeers ?g') = dom (peersToIndices ?g')"
    using dk domP by simp
  have "p \<in> dom (peersToIndices g)" using Some by auto
  then have np: "numPeers ?g' = ?tail"
    unfolding numPeers_def domP using fin by simp
  have c3: "\<forall>q i. peersToIndices ?g' q = Some i \<longleftrightarrow> indicesToPeers ?g' i = Some q"
  proof (intro allI)
    fix q i
    show "peersToIndices ?g' q = Some i \<longleftrightarrow> indicesToPeers ?g' i = Some q"
      using bij [of q i] bij [of p i] bij [of lp i] bij [of q idx] bij [of q ?tail]
        Iidx Itail Some Plp
      by (auto simp: eq split: if_splits)
  qed
  have c4: "dom (indicesToPeers ?g') = {..<numPeers ?g'}"
    unfolding np using di idx_lt by (auto simp: eq split: if_splits)
  have c5: "\<forall>i. bit (local_bits ?g') i \<longleftrightarrow> i < numPeers ?g'"
  proof (intro allI)
    fix i show "bit (local_bits ?g') i \<longleftrightarrow> i < numPeers ?g'"
      unfolding np using lb [of i] idx_lt
      by (auto simp: eq bs_Remove_def bit_unset_bit_iff)
  qed
  have c6: "\<forall>q k i. knownPeers ?g' q = Some k \<longrightarrow> bit k i \<longrightarrow> bit (local_bits ?g') i"
  proof (intro allI impI)
    fix q k i assume a: "knownPeers ?g' q = Some k" "bit k i"
    from a(1) obtain k0 where k0: "knownPeers g q = Some k0" "k = swapTail idx ?tail k0"
      by (auto simp: eq split: if_splits)
    from a(2) k0(2) have nt: "i \<noteq> ?tail" and b: "if i = idx then bit k0 ?tail else bit k0 i"
      by (simp_all add: bit_swapTail)
    have "bit (local_bits g) i"
    proof (cases "i = idx")
      case True
      with idx_lt lb [of i] show ?thesis by simp
    next
      case False
      with b kl [OF k0(1)] show ?thesis by simp
    qed
    with nt show "bit (local_bits ?g') i"
      by (simp add: eq bs_Remove_def bit_unset_bit_iff)
  qed
  show ?thesis unfolding tracker_wf_def by (intro conjI c1 c2 c3 c4 c5 c6)
qed

lemma wf_applyOp: "tracker_wf g \<Longrightarrow> tracker_wf (applyOp op g)"
  by (cases op) (simp_all add: wf_Add wf_Remove wf_UpdateKnown)

lemma wf_fold: "tracker_wf g \<Longrightarrow> tracker_wf (fold applyOp operations g)"
  by (induction operations arbitrary: g) (simp_all add: wf_applyOp)

lemma wf_runOps: "tracker_wf (runOps operations)"
  unfolding runOps_def by (rule wf_fold [OF wf_New])

subsection \<open>The invariants of the tracker\<close>

text \<open>
  C9. After every sequence of \<open>Add\<close>, \<open>Remove\<close> and \<open>UpdateKnown\<close> on a new tracker:
  (i) the known-set of every tracked peer is a subset of \<open>local\<close>; (ii) the indices
  assigned to the tracked peers, and the set bits of \<open>local\<close>, are exactly the numbers
  below the number of tracked peers.
\<close>

theorem gossip_tracker_invariants:
  "(\<forall>p k i. knownPeers (runOps operations) p = Some k \<longrightarrow> bit k i \<longrightarrow> bit (local_bits (runOps operations)) i) \<and>
   {i. \<exists>p. Contains (runOps operations) p \<and> peersToIndices (runOps operations) p = Some i}
     = {..<card {p. Contains (runOps operations) p}} \<and>
   {i. bit (local_bits (runOps operations)) i} = {..<card {p. Contains (runOps operations) p}}"
proof -
  let ?g = "runOps operations"
  have wf: "tracker_wf ?g" by (rule wf_runOps)
  then have dk: "dom (knownPeers ?g) = dom (peersToIndices ?g)"
    and bij: "\<And>q i. peersToIndices ?g q = Some i \<longleftrightarrow> indicesToPeers ?g i = Some q"
    and di: "dom (indicesToPeers ?g) = {..<numPeers ?g}"
    and lb: "\<And>i. bit (local_bits ?g) i \<longleftrightarrow> i < numPeers ?g"
    and kl: "\<And>q k i. knownPeers ?g q = Some k \<Longrightarrow> bit k i \<Longrightarrow> bit (local_bits ?g) i"
    by (auto simp: tracker_wf_def)
  have tr: "{p. Contains ?g p} = dom (knownPeers ?g)"
    by (auto simp: Contains_def split: option.splits)
  then have cnt: "card {p. Contains ?g p} = numPeers ?g"
    using dk by (simp add: numPeers_def)
  have a: "\<forall>p k i. knownPeers ?g p = Some k \<longrightarrow> bit k i \<longrightarrow> bit (local_bits ?g) i"
    using kl by blast
  have "{i. \<exists>p. Contains ?g p \<and> peersToIndices ?g p = Some i} = dom (indicesToPeers ?g)"
  proof (intro set_eqI iffI)
    fix i assume "i \<in> {i. \<exists>p. Contains ?g p \<and> peersToIndices ?g p = Some i}"
    then obtain p where "peersToIndices ?g p = Some i" by blast
    with bij [of p i] show "i \<in> dom (indicesToPeers ?g)" by auto
  next
    fix i assume "i \<in> dom (indicesToPeers ?g)"
    then obtain p where "indicesToPeers ?g i = Some p" by auto
    with bij [of p i] have pi: "peersToIndices ?g p = Some i" by simp
    then have "p \<in> dom (knownPeers ?g)" using dk by auto
    with tr have "Contains ?g p" by blast
    with pi show "i \<in> {i. \<exists>p. Contains ?g p \<and> peersToIndices ?g p = Some i}" by blast
  qed
  then have b: "{i. \<exists>p. Contains ?g p \<and> peersToIndices ?g p = Some i} = {..<card {p. Contains ?g p}}"
    using di cnt by simp
  have c: "{i. bit (local_bits ?g) i} = {..<card {p. Contains ?g p}}"
    using lb cnt by auto
  from a b c show ?thesis by blast
qed

lemma exampleOps_bits: "bs_Add 0 0 = Suc 0" "bs_Add (Suc 0) (Suc 0) = 3" "bs_Add (Suc (Suc 0)) 3 = 7"
  "bs_Union 0 3 = 3" "bs_Remove (Suc (Suc 0)) 7 = 3" "swapTail 0 (Suc (Suc 0)) 3 = 2"
  "swapTail 0 (Suc (Suc 0)) 0 = 0"
  by code_simp+

lemma exampleOps_known: "knownPeers (runOps exampleOps) 3 = Some 2"
  by (simp add: runOps_def exampleOps_def Add_def Remove_def UpdateKnown_def numPeers_def
      NewGossipTracker_def NewBigBitSet_def peerAt_def exampleOps_bits)

lemma exampleOps_local: "local_bits (runOps exampleOps) = 3"
  by (simp add: runOps_def exampleOps_def Add_def Remove_def UpdateKnown_def numPeers_def
      NewGossipTracker_def NewBigBitSet_def peerAt_def exampleOps_bits)

theorem gossip_tracker_invariants_witness:
  "knownPeers (runOps exampleOps) 3 = Some 2 \<and> bit (2::nat) 1 \<and>
   bit (local_bits (runOps exampleOps)) 1 \<and> local_bits (runOps exampleOps) = 3"
proof -
  have k: "knownPeers (runOps exampleOps) 3 = Some 2" by (rule exampleOps_known)
  have b: "bit (2::nat) 1" by code_simp
  show ?thesis using gossip_tracker_invariants [of exampleOps] k b exampleOps_local
    by blast
qed

section \<open>Properties of the fee calculator\<close>

subsection \<open>The static schedule\<close>

text \<open>
  C4 as stated fails: before the E upgrade an \<open>AddPermissionlessValidatorTx\<close> on a subnet
  pays the subnet-validator fee and an \<open>AddPermissionlessDelegatorTx\<close> on the primary
  network pays the primary-network delegator fee, neither of which is the flat \<open>TxFee\<close>.
\<close>

theorem static_fee_of_permissionless_not_flat:
  "fst (fst (ComputeFee exampleMetering (AddPermissionlessValidatorTx 1 [] []) exampleStaticCalculator))
     \<noteq> TxFee exampleStaticConfig \<and>
   fst (fst (ComputeFee exampleMetering (AddPermissionlessDelegatorTx PrimaryNetworkID [] [] []) exampleStaticCalculator))
     \<noteq> TxFee exampleStaticConfig"
  by (simp add: ComputeFee_def exampleStaticCalculator_def NewStaticCalculator_def
      exampleStaticConfig_def PrimaryNetworkID_def)

text \<open>
  C4, amended. Before the E upgrade, \<open>BaseTx\<close>, \<open>ImportTx\<close>, \<open>ExportTx\<close>,
  \<open>RemoveSubnetValidatorTx\<close> and \<open>TransferSubnetOwnershipTx\<close> pay the flat \<open>TxFee\<close>;
  an \<open>AddPermissionlessValidatorTx\<close> on a subnet other than the primary network pays the
  subnet-validator fee; an \<open>AddPermissionlessDelegatorTx\<close> pays the subnet-delegator fee
  on a subnet other than the primary network and the primary-network delegator fee on
  the primary network.
\<close>

theorem static_fee_schedule:
  assumes "\<not> isEActive c"
  shows "fst (ComputeFee mt (BaseTx outs ins) c) = (TxFee (staticCfg c), None) \<and>
         fst (ComputeFee mt (ImportTx outs ins imported) c) = (TxFee (staticCfg c), None) \<and>
         fst (ComputeFee mt (ExportTx outs exported ins) c) = (TxFee (staticCfg c), None) \<and>
         fst (ComputeFee mt (RemoveSubnetValidatorTx outs ins) c) = (TxFee (staticCfg c), None) \<and>
         fst (ComputeFee mt (TransferSubnetOwnershipTx outs ins) c) = (TxFee (staticCfg c), None) \<and>
         (subnet \<noteq> PrimaryNetworkID \<longrightarrow>
            fst (ComputeFee mt (AddPermissionlessValidatorTx subnet outs ins) c)
              = (AddSubnetValidatorFee (staticCfg c), None)) \<and>
         fst (ComputeFee mt (AddPermissionlessDelegatorTx subnet outs stakeOuts ins) c)
           = (if subnet \<noteq> PrimaryNetworkID then AddSubnetDelegatorFee (staticCfg c)
              else AddPrimaryNetworkDelegatorFee (staticCfg c), None)"
  using assms by (simp add: ComputeFee_def)

theorem static_fee_schedule_witness:
  "\<not> isEActive exampleStaticCalculator \<and>
   fst (ComputeFee exampleMetering (BaseTx [] []) exampleStaticCalculator) = (1, None) \<and>
   (1::ID) \<noteq> PrimaryNetworkID \<and>
   fst (ComputeFee exampleMetering (AddPermissionlessValidatorTx 1 [] []) exampleStaticCalculator) = (8, None) \<and>
   fst (ComputeFee exampleMetering (AddPermissionlessDelegatorTx 1 [] [] []) exampleStaticCalculator) = (9, None)"
proof -
  have e: "\<not> isEActive exampleStaticCalculator"
    by (simp add: exampleStaticCalculator_def NewStaticCalculator_def)
  have n: "(1::ID) \<noteq> PrimaryNetworkID" by (simp add: PrimaryNetworkID_def)
  have s: "staticCfg exampleStaticCalculator = exampleStaticConfig"
    by (simp add: exampleStaticCalculator_def NewStaticCalculator_def)
  show ?thesis
    using static_fee_schedule [OF e, of exampleMetering "[]" "[]" "[]" "[]" 1 "[]"] e n
    by (simp add: s exampleStaticConfig_def)
qed

subsection \<open>The tip percentage\<close>

text \<open>
  C5 as stated fails where the required fee is zero: the call returns at once and the
  tip percentage stays what it was, here 5.
\<close>

theorem tip_not_zero_on_zero_fee:
  "fee exampleTippedCalculator = 0 \<and>
   fst (CalculateTipPercentage (\<lambda>t. True) 10 exampleTippedCalculator) = None \<and>
   tipPercentage (snd (CalculateTipPercentage (\<lambda>t. True) 10 exampleTippedCalculator)) \<noteq> 0"
  by (simp add: CalculateTipPercentage_def exampleTippedCalculator_def ResetTipPercentage_def
      exampleStaticCalculator_def NewStaticCalculator_def)

text \<open>
  C5, amended. \<open>CalculateTipPercentage\<close> fails with the fees-paid-less-than-required
  error exactly when \<open>paid < required\<close>, and then writes nothing; when the required fee
  is zero it succeeds and leaves the tip percentage as it was; otherwise the stored tip
  percentage is \<open>(paid - required) * TipDenonimator / required\<close> in 64-bit unsigned
  arithmetic, which is the exact quotient whenever the product fits 64 bits.
\<close>

theorem CalculateTipPercentage_spec:
  "(fst (CalculateTipPercentage valid feesPaid c) = Some ErrFeesPaidLessThanRequired
      \<longleftrightarrow> feesPaid < fee c) \<and>
   (feesPaid < fee c \<longrightarrow> snd (CalculateTipPercentage valid feesPaid c) = c) \<and>
   (fee c = 0 \<longrightarrow> CalculateTipPercentage valid feesPaid c = (None, c)) \<and>
   (fee c \<noteq> 0 \<and> fee c \<le> feesPaid \<longrightarrow>
      tipPercentage (snd (CalculateTipPercentage valid feesPaid c))
        = (feesPaid - fee c) * TipDenonimator div fee c \<and>
      (unat (feesPaid - fee c) * 1000000 < 2 ^ 64 \<longrightarrow>
         unat (tipPercentage (snd (CalculateTipPercentage valid feesPaid c)))
           = (unat feesPaid - unat (fee c)) * 1000000 div unat (fee c)))"
proof -
  have a: "fst (CalculateTipPercentage valid feesPaid c) = Some ErrFeesPaidLessThanRequired
      \<longleftrightarrow> feesPaid < fee c"
    by (simp add: CalculateTipPercentage_def Let_def)
  have b: "feesPaid < fee c \<longrightarrow> snd (CalculateTipPercentage valid feesPaid c) = c"
    by (simp add: CalculateTipPercentage_def)
  have c: "fee c = 0 \<longrightarrow> CalculateTipPercentage valid feesPaid c = (None, c)"
    by (simp add: CalculateTipPercentage_def)
  have d: "tipPercentage (snd (CalculateTipPercentage valid feesPaid c))
        = (feesPaid - fee c) * TipDenonimator div fee c"
    if "fee c \<noteq> 0" "fee c \<le> feesPaid"
  proof -
    from that(2) have "\<not> feesPaid < fee c" by (simp add: not_less)
    with that(1) show ?thesis by (simp add: CalculateTipPercentage_def Let_def)
  qed
  have e: "unat (tipPercentage (snd (CalculateTipPercentage valid feesPaid c)))
           = (unat feesPaid - unat (fee c)) * 1000000 div unat (fee c)"
    if "fee c \<noteq> 0" "fee c \<le> feesPaid" "unat (feesPaid - fee c) * 1000000 < 2 ^ 64"
  proof -
    have s: "unat (feesPaid - fee c) = unat feesPaid - unat (fee c)"
      using that(2) by (simp add: unat_sub)
    have "unat (t * TipDenonimator) = unat t * 1000000"
      if "unat t * 1000000 < 2 ^ 64" for t :: u64
      using that unat_mult_lem [of t TipDenonimator] by (simp add: TipDenonimator_def)
    from this [OF that(3)]
    have m: "unat ((feesPaid - fee c) * TipDenonimator) = unat (feesPaid - fee c) * 1000000" .
    have "unat (tipPercentage (snd (CalculateTipPercentage valid feesPaid c)))
            = unat ((feesPaid - fee c) * TipDenonimator) div unat (fee c)"
      unfolding d [OF that(1,2)] by (rule unat_div)
    then show ?thesis unfolding m s .
  qed
  from a b c d e show ?thesis by blast
qed

theorem CalculateTipPercentage_spec_witness:
  "fee exampleFeeCalculator \<noteq> 0 \<and> fee exampleFeeCalculator \<le> 110 \<and>
   unat ((110::u64) - fee exampleFeeCalculator) * 1000000 < (2::nat) ^ 64 \<and>
   tipPercentage (snd (CalculateTipPercentage (\<lambda>t. True) 110 exampleFeeCalculator)) = 100000 \<and>
   (50::u64) < fee exampleFeeCalculator \<and>
   fst (CalculateTipPercentage (\<lambda>t. True) 50 exampleFeeCalculator) = Some ErrFeesPaidLessThanRequired"
proof -
  have f: "fee exampleFeeCalculator = 100"
    by (simp add: exampleFeeCalculator_def ResetFee_def)
  show ?thesis
    using CalculateTipPercentage_spec [of "\<lambda>t. True" 110 exampleFeeCalculator]
      CalculateTipPercentage_spec [of "\<lambda>t. True" 50 exampleFeeCalculator]
    by (simp add: f TipDenonimator_def)
qed

subsection \<open>Adding and removing fees\<close>

lemma unat_MaxUint64: "unat MaxUint64 = 2 ^ 64 - 1"
  by (simp add: MaxUint64_def unsigned_minus_1_eq_mask mask_eq_exp_minus_1)





















section \<open>Properties of the validator manager\<close>

lemma heightsDown_empty: "hi < lo \<Longrightarrow> heightsDown hi lo = []"
  by (simp add: heightsDown_def word_less_nat_alt)

lemma heightsDown_single: "heightsDown h h = [h]"
  by (simp add: heightsDown_def)

lemma heightsDown_step:
  assumes "lo < hi"
  shows "heightsDown hi lo = hi # heightsDown (hi - 1) lo"
proof -
  from assms have ul: "unat lo < unat hi" by (simp add: word_less_nat_alt)
  then have "hi \<noteq> 0" by auto
  then have u1: "unat (hi - 1) = unat hi - 1" by (simp add: unat_minus_one)
  with ul have s: "Suc (unat (hi - 1)) = unat hi" by simp
  have "[unat lo..<Suc (unat hi)] = [unat lo..<unat hi] @ [unat hi]"
    using ul by simp
  then show ?thesis by (simp add: heightsDown_def s)
qed

lemma diffsDown_applyAll:
  "diffsDown f hi lo vs = applyAll f (heightsDown hi lo) vs"
proof (induction f hi lo vs rule: diffsDown.induct)
  case (1 f hi lo vs)
  show ?case
  proof (cases "hi < lo")
    case True
    then show ?thesis by (simp add: diffsDown.simps heightsDown_empty)
  next
    case nl: False
    show ?thesis
    proof (cases "hi = lo")
      case True
      then show ?thesis
        by (subst diffsDown.simps) (simp add: heightsDown_single split: sum.splits)
    next
      case False
      with nl have "lo < hi" by simp
      note st = heightsDown_step [OF this]
      show ?thesis
      proof (cases "f hi vs")
        case (Inl e)
        with nl False show ?thesis by (subst diffsDown.simps) (simp add: st)
      next
        case (Inr vs')
        with nl False "1.IH" [OF nl Inr False] show ?thesis
          by (subst diffsDown.simps) (simp add: st)
      qed
    qed
  qed
qed

lemma heightsDown_range:
  assumes "targetHeight \<le> currentHeight" and "targetHeight + 1 \<noteq> 0"
  shows "map unat (heightsDown currentHeight (targetHeight + 1))
           = rev [Suc (unat targetHeight)..<Suc (unat currentHeight)]"
proof -
  define xs where "xs = [Suc (unat targetHeight)..<Suc (unat currentHeight)]"
  from assms(2) have u: "unat (targetHeight + 1) = Suc (unat targetHeight)"
    using unatSuc [of targetHeight] by (simp add: add.commute)
  have "unat (word_of_nat x :: u64) = x" if "x \<in> set xs" for x
  proof -
    from that have "x < Suc (unat currentHeight)"
      unfolding xs_def by (simp only: set_upt atLeastLessThan_iff)
    then have "x \<le> unat currentHeight" by arith
    also have "\<dots> < 2 ^ 64" using unsigned_less [of currentHeight] by simp
    finally show ?thesis by (intro of_nat_inverse [OF refl]) simp
  qed
  then have id: "map (\<lambda>x. unat (word_of_nat x :: u64)) xs = xs"
    by (intro map_idI)
  have "heightsDown currentHeight (targetHeight + 1) = rev (map word_of_nat xs)"
    unfolding heightsDown_def u xs_def ..
  then have "map unat (heightsDown currentHeight (targetHeight + 1))
               = rev (map (\<lambda>x. unat (word_of_nat x :: u64)) xs)"
    by (simp only: rev_map map_map comp_def)
  then have "map unat (heightsDown currentHeight (targetHeight + 1)) = rev xs"
    by (simp only: id)
  then show ?thesis by (simp only: xs_def)
qed

text \<open>
  C7. Given the current validator set and the height of the last accepted block, the
  reconstruction returns \<open>ErrNotFound\<close> when the target height exceeds the current height,
  and otherwise applies to the current set the weight diffs of the heights from the
  current height down to \<open>targetHeight + 1\<close>, in that order, and then the public-key diffs
  of the same heights in the same order (for a subnet, after the public keys of the
  primary network are copied in). The heights are those of \<open>[targetHeight + 1,
  currentHeight]\<close>, the sum taken in 64 bits.
\<close>

theorem validator_set_reconstruction:
  "(getCurrentPrimaryValidatorSet m = Inr (vs, currentHeight) \<longrightarrow>
      (currentHeight < targetHeight \<longrightarrow>
         makePrimaryNetworkValidatorSet m targetHeight = Inl ErrNotFound) \<and>
      (targetHeight \<le> currentHeight \<longrightarrow>
         makePrimaryNetworkValidatorSet m targetHeight =
           (case applyAll (weightDiffAt (mstate m) PlatformChainID)
                   (heightsDown currentHeight (targetHeight + 1)) vs of
              Inl e \<Rightarrow> Inl e
            | Inr vs1 \<Rightarrow>
                (case applyAll (publicKeyDiffAt (mstate m))
                        (heightsDown currentHeight (targetHeight + 1)) vs1 of
                   Inl e \<Rightarrow> Inl e
                 | Inr vs2 \<Rightarrow> Inr (vs2, currentHeight))))) \<and>
   (getCurrentValidatorSets m subnetID = Inr (svs, pvs, currentHeight) \<longrightarrow>
      (currentHeight < targetHeight \<longrightarrow>
         makeSubnetValidatorSet m targetHeight subnetID = Inl ErrNotFound) \<and>
      (targetHeight \<le> currentHeight \<longrightarrow>
         makeSubnetValidatorSet m targetHeight subnetID =
           (case applyAll (weightDiffAt (mstate m) subnetID)
                   (heightsDown currentHeight (targetHeight + 1)) svs of
              Inl e \<Rightarrow> Inl e
            | Inr vs1 \<Rightarrow>
                (case overlayPublicKeys vs1 pvs of
                   Inl e \<Rightarrow> Inl e
                 | Inr vs2 \<Rightarrow>
                     (case applyAll (publicKeyDiffAt (mstate m))
                             (heightsDown currentHeight (targetHeight + 1)) vs2 of
                        Inl e \<Rightarrow> Inl e
                      | Inr vs3 \<Rightarrow> Inr (vs3, currentHeight)))))) \<and>
   (targetHeight \<le> currentHeight \<longrightarrow> targetHeight + 1 \<noteq> 0 \<longrightarrow>
      map unat (heightsDown currentHeight (targetHeight + 1))
        = rev [Suc (unat targetHeight)..<Suc (unat currentHeight)])"
proof -
  have nl: "\<not> currentHeight < targetHeight" if "targetHeight \<le> currentHeight"
    using that by (simp add: not_less)
  show ?thesis
    by (auto simp: makePrimaryNetworkValidatorSet_def makeSubnetValidatorSet_def
        ApplyValidatorWeightDiffs_def ApplyValidatorPublicKeyDiffs_def diffsDown_applyAll
        heightsDown_range nl Let_def split: sum.splits)
qed

theorem validator_set_reconstruction_witness:
  "getCurrentPrimaryValidatorSet exampleValidatorManager = Inr (examplePrimarySet, 5) \<and>
   getCurrentValidatorSets exampleValidatorManager 7 = Inr (exampleSubnetSet, examplePrimarySet, 5) \<and>
   (3::u64) \<le> 5 \<and> (3::u64) + 1 \<noteq> 0 \<and>
   map unat (heightsDown 5 ((3::u64) + 1)) = [5, 4] \<and>
   makePrimaryNetworkValidatorSet exampleValidatorManager 3
     = Inr ([(1, \<lparr> outNodeID = 1, outPublicKey = Some 11, outWeight = 18 \<rparr>)], 5) \<and>
   makeSubnetValidatorSet exampleValidatorManager 3 7
     = Inr ([(1, \<lparr> outNodeID = 1, outPublicKey = Some 11, outWeight = 54 \<rparr>)], 5) \<and>
   (5::u64) < 6 \<and>
   makePrimaryNetworkValidatorSet exampleValidatorManager 6 = Inl ErrNotFound \<and>
   makeSubnetValidatorSet exampleValidatorManager 6 7 = Inl ErrNotFound"
proof -
  have p: "getCurrentPrimaryValidatorSet exampleValidatorManager = Inr (examplePrimarySet, 5)"
    by (simp add: getCurrentPrimaryValidatorSet_def getCurrentHeight_def
        exampleValidatorManager_def exampleManagerState_def PrimaryNetworkID_def)
  have s: "getCurrentValidatorSets exampleValidatorManager 7
             = Inr (exampleSubnetSet, examplePrimarySet, 5)"
    by (simp add: getCurrentValidatorSets_def getCurrentHeight_def
        exampleValidatorManager_def exampleManagerState_def PrimaryNetworkID_def)
  have h: "heightsDown 5 ((3::u64) + 1) = [5, 4]"
    by (simp add: heightsDown_def upt_rec)
  have h4: "heightsDown 5 (4::u64) = [5, 4]"
    using h by simp
  have st: "mstate exampleValidatorManager = exampleManagerState"
    by (simp add: exampleValidatorManager_def)
  show ?thesis
    using validator_set_reconstruction
        [of exampleValidatorManager examplePrimarySet 5 3 7 exampleSubnetSet examplePrimarySet]
      validator_set_reconstruction
        [of exampleValidatorManager examplePrimarySet 5 6 7 exampleSubnetSet examplePrimarySet]
      p s
    by (simp add: h h4 st exampleManagerState_def examplePrimarySet_def exampleSubnetSet_def)
qed

section \<open>Properties of the staker verification\<close>

subsection \<open>The delegation cap\<close>

lemma Mul64_Some: "Mul64 a b = Some c \<Longrightarrow> unat c = unat a * unat b \<and> unat a * unat b < 2 ^ 64"
  using unat_mult_lem [of a b]
  by (auto simp: Mul64_def split: if_splits)

lemma Mul64_None: "Mul64 a b = None \<longleftrightarrow> 2 ^ 64 \<le> unat a * unat b"
  by (auto simp: Mul64_def)

lemma unat_ucast_factor: "unat (ucast (x :: 8 word) :: u64) = unat x"
proof -
  have "unat x < 2 ^ 8" using unsigned_less [of x] by simp
  also have "(2::nat) ^ 8 < 2 ^ 64" by simp
  finally show ?thesis by (simp add: unsigned_ucast_eq take_bit_nat_eq_self)
qed

lemma unat_min_word: "unat (min a b) = min (unat a) (unat b)"
  for a b :: u64
  by (simp add: min_def word_le_nat_alt)

lemma unat_factor: "unat (word_of_nat MaxValidatorWeightFactor :: u64) = MaxValidatorWeightFactor"
  by (simp add: MaxValidatorWeightFactor_def)

lemma permissionless_bound:
  "unat (permissionlessDelegatorMaximumWeight rules weight) =
     min (min (unat (drMaxValidatorWeightFactor rules) * unat weight) (2 ^ 64 - 1))
         (unat (drMaxValidatorStake rules))"
proof (cases "Mul64 (ucast (drMaxValidatorWeightFactor rules)) weight")
  case None
  then have "2 ^ 64 \<le> unat (drMaxValidatorWeightFactor rules) * unat weight"
    by (simp add: Mul64_None unat_ucast_factor)
  then have "min (unat (drMaxValidatorWeightFactor rules) * unat weight) (2 ^ 64 - 1) = 2 ^ 64 - 1"
    by simp
  with None show ?thesis
    by (simp add: permissionlessDelegatorMaximumWeight_def unat_min_word unat_MaxUint64)
next
  case (Some m)
  from Mul64_Some [OF Some]
  have "unat m = unat (drMaxValidatorWeightFactor rules) * unat weight"
    and "unat (drMaxValidatorWeightFactor rules) * unat weight < 2 ^ 64"
    by (simp_all add: unat_ucast_factor)
  then have "min (unat (drMaxValidatorWeightFactor rules) * unat weight) (2 ^ 64 - 1) = unat m"
    by simp
  with Some show ?thesis
    by (simp add: permissionlessDelegatorMaximumWeight_def unat_min_word)
qed

lemma addDelegator_bound_overflow:
  "addDelegatorMaximumWeight cfg t weight = Inl e \<longleftrightarrow>
     e = ErrStakeOverflow \<and> 2 ^ 64 \<le> MaxValidatorWeightFactor * unat weight"
  using Mul64_None [of "word_of_nat MaxValidatorWeightFactor" weight]
  by (auto simp: addDelegatorMaximumWeight_def unat_factor split: option.splits)

lemma addDelegator_bound_value:
  assumes "addDelegatorMaximumWeight cfg t weight = Inr m"
  shows "MaxValidatorWeightFactor * unat weight < 2 ^ 64 \<and>
         unat m = (if IsApricotPhase3Activated (upgradeConfig cfg) t
                   then min (MaxValidatorWeightFactor * unat weight) (unat (MaxValidatorStake cfg))
                   else MaxValidatorWeightFactor * unat weight)"
proof -
  from assms obtain p where p: "Mul64 (word_of_nat MaxValidatorWeightFactor) weight = Some p"
    and m: "m = (if IsApricotPhase3Activated (upgradeConfig cfg) t then min p (MaxValidatorStake cfg) else p)"
    by (auto simp: addDelegatorMaximumWeight_def split: option.splits if_splits)
  from Mul64_Some [OF p] have "unat p = MaxValidatorWeightFactor * unat weight"
    and "MaxValidatorWeightFactor * unat weight < 2 ^ 64"
    by (simp_all add: unat_factor)
  with m show ?thesis by (simp add: unat_min_word)
qed

lemma verifyAddPermissionlessDelegatorTx_cap:
  assumes "Bootstrapped b" and "verifyAddPermissionlessDelegatorTx b c tx = Inr endTime"
  shows "\<exists>validator rules newStaker.
           GetValidator c (txSubnet tx) (txNodeID tx) = Inr validator \<and>
           getDelegatorRules b c (txSubnet tx) = Inr rules \<and>
           newStakerFor b (IsContinuousStakingActivated (Config b) (GetTimestamp c))
             (GetTimestamp c) tx = Inr newStaker \<and>
           canDelegate c validator
             (permissionlessDelegatorMaximumWeight rules (Weight validator)) newStaker = Inr True"
  using assms
  by (auto simp: verifyAddPermissionlessDelegatorTx_def Let_def
        split: option.splits sum.splits if_splits)

lemma verifyAddDelegatorTx_cap:
  assumes "Bootstrapped b" and "verifyAddDelegatorTx b c tx = Inr r"
  shows "\<exists>validator bound newStaker.
           GetValidator c PrimaryNetworkID (txNodeID tx) = Inr validator \<and>
           addDelegatorMaximumWeight (Config b) (GetTimestamp c) (Weight validator) = Inr bound \<and>
           newStakerFor b (IsContinuousStakingActivated (Config b) (GetTimestamp c))
             (GetTimestamp c) tx = Inr newStaker \<and>
           canDelegate c validator bound newStaker = Inr True"
  using assms
  by (auto simp: verifyAddDelegatorTx_def Let_def
        split: option.splits sum.splits if_splits)

lemmas example_staking_defs =
  exampleBackend_def exampleChain_def exampleDelegatorTx_def exampleConfig_def
  examplePrimaryValidator_def examplePermissionlessDelegatorTx_def
  examplePrimaryDelegatorRules_def exampleStaticConfig_def
  startsNotAfter_def startsTooFarAhead_def IsContinuousStakingActivated_def
  addDelegatorMaximumWeight_def permissionlessDelegatorMaximumWeight_def
  Mul64_def MaxValidatorWeightFactor_def IsApricotPhase3Activated_def PrimaryNetworkID_def
  getDelegatorRules_def getValidatorRules_def newStakerFor_def NewPendingStaker_def
  NewCurrentStaker_def MaxFutureStartTime_def Second_def MaxUint64_def

text \<open>
  C1 as stated fails for \<open>AddDelegatorTx\<close>: when \<open>MaxValidatorWeightFactor\<close> times the
  weight of the validator overflows 64 bits, \<open>verifyAddDelegatorTx\<close> returns
  \<open>ErrStakeOverflow\<close> instead of going on with a saturated bound; and before Apricot
  Phase 3 its bound is the product itself, here 5000000, above the maximum validator stake
  of 3000000.
\<close>

theorem AddDelegatorTx_overflow_fails:
  "verifyAddDelegatorTx exampleBackend exampleHeavyChain exampleDelegatorTx = Inl ErrStakeOverflow \<and>
   addDelegatorMaximumWeight (exampleConfig\<lparr> upgradeConfig := \<lparr> ApricotPhase3Time = 1000 \<rparr> \<rparr>)
       500 1000000 = Inr 5000000 \<and>
   MaxValidatorStake exampleConfig = 3000000"
  by (simp add: verifyAddDelegatorTx_def exampleBackend_def exampleHeavyChain_def
      exampleChain_def exampleDelegatorTx_def exampleConfig_def examplePrimaryValidator_def
      startsNotAfter_def IsContinuousStakingActivated_def addDelegatorMaximumWeight_def
      Mul64_def MaxValidatorWeightFactor_def IsApricotPhase3Activated_def PrimaryNetworkID_def)

text \<open>
  C1, amended. A bootstrapped \<open>verifyAddPermissionlessDelegatorTx\<close> that accepts has asked
  \<open>canDelegate\<close> with the bound \<open>permissionlessDelegatorMaximumWeight\<close>, which is the
  minimum of the product of the weight factor and the validator's weight, saturated to
  \<open>2^64 - 1\<close>, and the maximum validator stake. A bootstrapped \<open>verifyAddDelegatorTx\<close> that
  accepts has asked \<open>canDelegate\<close> with the bound \<open>addDelegatorMaximumWeight\<close>; that bound
  exists only when the product fits 64 bits, and is then the product, capped by the
  maximum validator stake only once Apricot Phase 3 is active; when the product does not
  fit, the outcome is \<open>ErrStakeOverflow\<close>.
\<close>

theorem delegation_cap_bound:
  "(Bootstrapped b \<longrightarrow> verifyAddPermissionlessDelegatorTx b c tx = Inr endTime \<longrightarrow>
      (\<exists>validator rules newStaker.
          GetValidator c (txSubnet tx) (txNodeID tx) = Inr validator \<and>
          getDelegatorRules b c (txSubnet tx) = Inr rules \<and>
          newStakerFor b (IsContinuousStakingActivated (Config b) (GetTimestamp c))
            (GetTimestamp c) tx = Inr newStaker \<and>
          canDelegate c validator
            (permissionlessDelegatorMaximumWeight rules (Weight validator)) newStaker = Inr True)) \<and>
   unat (permissionlessDelegatorMaximumWeight rules weight) =
     min (min (unat (drMaxValidatorWeightFactor rules) * unat weight) (2 ^ 64 - 1))
         (unat (drMaxValidatorStake rules)) \<and>
   (Bootstrapped b \<longrightarrow> verifyAddDelegatorTx b c tx = Inr r \<longrightarrow>
      (\<exists>validator bound newStaker.
          GetValidator c PrimaryNetworkID (txNodeID tx) = Inr validator \<and>
          addDelegatorMaximumWeight (Config b) (GetTimestamp c) (Weight validator) = Inr bound \<and>
          newStakerFor b (IsContinuousStakingActivated (Config b) (GetTimestamp c))
            (GetTimestamp c) tx = Inr newStaker \<and>
          canDelegate c validator bound newStaker = Inr True)) \<and>
   (addDelegatorMaximumWeight cfg t weight = Inr m \<longrightarrow>
      MaxValidatorWeightFactor * unat weight < 2 ^ 64 \<and>
      unat m = (if IsApricotPhase3Activated (upgradeConfig cfg) t
                then min (MaxValidatorWeightFactor * unat weight) (unat (MaxValidatorStake cfg))
                else MaxValidatorWeightFactor * unat weight)) \<and>
   (2 ^ 64 \<le> MaxValidatorWeightFactor * unat weight \<longrightarrow>
      addDelegatorMaximumWeight cfg t weight = Inl ErrStakeOverflow)"
proof -
  have 5: "2 ^ 64 \<le> MaxValidatorWeightFactor * unat weight \<longrightarrow>
      addDelegatorMaximumWeight cfg t weight = Inl ErrStakeOverflow"
    using addDelegator_bound_overflow [of cfg t weight ErrStakeOverflow] by simp
  show ?thesis
    using verifyAddPermissionlessDelegatorTx_cap [of b c tx endTime]
      permissionless_bound [of rules weight]
      verifyAddDelegatorTx_cap [of b c tx r]
      addDelegator_bound_value [of cfg t weight m] 5
    by blast
qed

theorem delegation_cap_bound_witness:
  "Bootstrapped exampleBackend \<and>
   verifyAddPermissionlessDelegatorTx exampleBackend exampleChain examplePermissionlessDelegatorTx
     = Inr 100000 \<and>
   getDelegatorRules exampleBackend exampleChain PrimaryNetworkID = Inr examplePrimaryDelegatorRules \<and>
   unat (permissionlessDelegatorMaximumWeight examplePrimaryDelegatorRules 1000) = 5000 \<and>
   verifyAddDelegatorTx exampleBackend exampleChain exampleDelegatorTx = Inr ([2, 3], 100000) \<and>
   addDelegatorMaximumWeight exampleConfig 500 1000 = Inr 5000 \<and>
   verifyAddDelegatorTx exampleBackend exampleChain (exampleDelegatorTx\<lparr> txWght := 1001 \<rparr>)
     = Inl ErrOverDelegated \<and>
   (2::nat) ^ 64 \<le> MaxValidatorWeightFactor * unat ((2::u64) ^ 63) \<and>
   addDelegatorMaximumWeight exampleConfig 500 (2 ^ 63) = Inl ErrStakeOverflow"
proof -
  have b: "Bootstrapped exampleBackend" by (simp add: exampleBackend_def)
  have p: "verifyAddPermissionlessDelegatorTx exampleBackend exampleChain
             examplePermissionlessDelegatorTx = Inr 100000"
    by (simp add: verifyAddPermissionlessDelegatorTx_def example_staking_defs)
  have d: "verifyAddDelegatorTx exampleBackend exampleChain exampleDelegatorTx = Inr ([2, 3], 100000)"
    by (simp add: verifyAddDelegatorTx_def example_staking_defs)
  have o: "verifyAddDelegatorTx exampleBackend exampleChain (exampleDelegatorTx\<lparr> txWght := 1001 \<rparr>)
             = Inl ErrOverDelegated"
    by (simp add: verifyAddDelegatorTx_def example_staking_defs)
  have g: "getDelegatorRules exampleBackend exampleChain PrimaryNetworkID
             = Inr examplePrimaryDelegatorRules"
    by (simp add: example_staking_defs)
  have m: "addDelegatorMaximumWeight exampleConfig 500 1000 = Inr 5000"
    by (simp add: example_staking_defs)
  have w: "(2::nat) ^ 64 \<le> MaxValidatorWeightFactor * unat ((2::u64) ^ 63)"
    by (simp add: MaxValidatorWeightFactor_def)
  have f: "unat (drMaxValidatorWeightFactor examplePrimaryDelegatorRules) = 5"
    "unat (drMaxValidatorStake examplePrimaryDelegatorRules) = 3000000"
    by (simp_all add: examplePrimaryDelegatorRules_def)
  show ?thesis
    using delegation_cap_bound
      [where b = exampleBackend and c = exampleChain and tx = examplePermissionlessDelegatorTx
         and endTime = 100000 and rules = examplePrimaryDelegatorRules and weight = 1000
         and cfg = exampleConfig and t = 500 and m = 5000]
      delegation_cap_bound
      [where b = exampleBackend and c = exampleChain and tx = exampleDelegatorTx
         and r = "([2, 3], 100000)" and rules = examplePrimaryDelegatorRules
         and weight = "2 ^ 63" and cfg = exampleConfig and t = 500]
      b p d o g m w
    by (simp add: f)
qed

subsection \<open>The start time of a staker\<close>

lemma logWrite_reads [simp]:
  "UpdateCurrentValidatorError (logWrite x st) = UpdateCurrentValidatorError st"
  "UpdateCurrentDelegatorError (logWrite x st) = UpdateCurrentDelegatorError st"
  "ops (logWrite x st) = ops st @ [x]"
  by (simp_all add: logWrite_def)

lemma startsNotAfter_active [simp]: "startsNotAfter True now start = False"
  by (simp add: startsNotAfter_def)

lemma startsTooFarAhead_active [simp]: "startsTooFarAhead True now start = False"
  by (simp add: startsTooFarAhead_def)


lemma newStakerFor_start [simp]:
  "newStakerFor b True now (tx\<lparr> txStartTime := t \<rparr>) = newStakerFor b True now tx"
  by (simp add: newStakerFor_def NewCurrentStaker_def CurrentPriority_def split: option.splits)






text \<open>After the fork the verifiers and the executor do not read the stated start time.\<close>

lemma NewCurrentStaker_start [simp]:
  "NewCurrentStaker (txID tx) (tx\<lparr> txStartTime := t \<rparr>) now bound reward
     = NewCurrentStaker (txID tx) tx now bound reward"
  by (simp add: NewCurrentStaker_def CurrentPriority_def split: option.splits)

lemma CurrentPriority_start [simp]:
  "CurrentPriority (tx\<lparr> txStartTime := t \<rparr>) = CurrentPriority tx"
  by (simp add: CurrentPriority_def)

































section \<open>Properties of the standard executor\<close>

subsection \<open>Stopping a staker\<close>

lemma findStaker_Some:
  "findStaker txid stakers = Some s \<Longrightarrow> s \<in> set stakers \<and> TxID s = txid"
  by (induction stakers) (auto split: if_splits)

lemma findStaker_None:
  "findStaker txid stakers = None \<longleftrightarrow> (\<forall>s \<in> set stakers. TxID s \<noteq> txid)"
  by (induction stakers) auto

lemma sameNodeStakers_filter:
  "sameNodeStakers target stakers res =
     res @ filter (\<lambda>s. NodeID s = NodeID target \<and> TxID s \<noteq> TxID target) stakers"
  by (induction stakers arbitrary: res) auto

lemma stopWriteError_logWrite [simp]:
  "stopWriteError (logWrite x st) = stopWriteError st"
  by (simp add: stopWriteError_def fun_eq_iff)

lemma stopStakers_ok:
  "(\<And>s. s \<in> set stakers \<Longrightarrow> stopWriteError st stopTime s = None) \<Longrightarrow>
   stopStakers stakers stopTime st = Inr (st\<lparr> ops := ops st @ map (stopWrite stopTime) stakers \<rparr>)"
proof (induction stakers arbitrary: st)
  case Nil
  then show ?case by simp
next
  case (Cons s stakers)
  have e: "stopWriteError st stopTime s = None" using Cons.prems by simp
  have r: "\<And>x. stopStakers stakers stopTime (logWrite x st)
            = Inr (logWrite x st\<lparr> ops := ops (logWrite x st) @ map (stopWrite stopTime) stakers \<rparr>)"
    using Cons.IH Cons.prems by simp
  have "stopStakers (s # stakers) stopTime st
          = stopStakers stakers stopTime (logWrite (stopWrite stopTime s) st)"
    using e
    by (auto simp: MarkStakerForRemovalInPlaceBeforeTime_def stopWriteError_def stopWrite_def
          Let_def split: if_splits)
  also have "\<dots> = Inr (logWrite (stopWrite stopTime s) st
        \<lparr> ops := ops (logWrite (stopWrite stopTime s) st) @ map (stopWrite stopTime) stakers \<rparr>)"
    by (rule r)
  also have "\<dots> = Inr (st\<lparr> ops := ops st @ map (stopWrite stopTime) (s # stakers) \<rparr>)"
    by (simp add: logWrite_def)
  finally show ?case .
qed

lemma firstStopError_logWrite [simp]:
  "firstStopError (logWrite x st) stopTime stakers = firstStopError st stopTime stakers"
  by (induction stakers) (simp_all split: option.splits)

lemma firstStopError_None:
  "firstStopError st stopTime stakers = None \<longleftrightarrow>
     (\<forall>s \<in> set stakers. stopWriteError st stopTime s = None)"
  by (induction stakers) (auto split: option.splits)

lemma stopStakers_fails:
  "firstStopError st stopTime stakers = Some err \<Longrightarrow>
   stopStakers stakers stopTime st = Inl err"
proof (induction stakers arbitrary: st)
  case Nil
  then show ?case by simp
next
  case (Cons s stakers)
  show ?case
  proof (cases "stopWriteError st stopTime s")
    case (Some e)
    with Cons.prems have "e = err" by simp
    with Some show ?thesis
      by (auto simp: MarkStakerForRemovalInPlaceBeforeTime_def stopWriteError_def Let_def
            split: if_splits)
  next
    case None
    with Cons.prems have f: "firstStopError st stopTime stakers = Some err" by simp
    have r: "\<And>x. stopStakers stakers stopTime (logWrite x st) = Inl err"
      using Cons.IH f by simp
    from None show ?thesis
      by (auto simp: MarkStakerForRemovalInPlaceBeforeTime_def stopWriteError_def Let_def r
            split: if_splits)
  qed
qed

text \<open>
  C3. When \<open>verifyStopStakerTx\<close> accepts, the staker to stop is the first current staker
  with the tx id of the transaction and the stop time is its earliest-stop time. If it
  is a validator of the primary network, the result is that staker followed by every
  other current staker of the same node, in the order of the iterator; otherwise the
  result is that staker alone. The executor marks every staker of the result with the
  stop time and writes it back, through \<open>UpdateCurrentValidator\<close> for a validator and
  through \<open>UpdateCurrentDelegator\<close> otherwise, in the order of the result, and then
  consumes the inputs and produces the outputs; if one of these updates returns an error,
  the execution stops there and returns the first such error.
\<close>

theorem StopStakerTx_cascade:
  assumes "verifyStopStakerTx b st tx = Inr (stakers, stopTime)"
  shows "\<exists>target current.
           GetCurrentStakerIterator st = Inr current \<and>
           findStaker (stopTxID tx) current = Some target \<and>
           target \<in> set current \<and> TxID target = stopTxID tx \<and>
           stopTime = EarliestStopTime target \<and>
           (IsValidator (Priority target) \<and> SubnetID target = PrimaryNetworkID \<longrightarrow>
              stakers = target #
                filter (\<lambda>s. NodeID s = NodeID target \<and> TxID s \<noteq> TxID target) current) \<and>
           (\<not> (IsValidator (Priority target) \<and> SubnetID target = PrimaryNetworkID) \<longrightarrow>
              stakers = [target]) \<and>
           ((\<forall>s \<in> set stakers. stopWriteError st stopTime s = None) \<longrightarrow>
              execStopStakerTx b tx st =
                Inr (st\<lparr> ops := ops st @ map (stopWrite stopTime) stakers
                                  @ [Consume (stopIns tx), Produce (stopID tx) (stopOuts tx)] \<rparr>)) \<and>
           (\<forall>err. firstStopError st stopTime stakers = Some err \<longrightarrow>
              execStopStakerTx b tx st = Inl err)"
proof -
  from assms obtain current target where c: "GetCurrentStakerIterator st = Inr current"
    and f: "findStaker (stopTxID tx) current = Some target"
    and s: "stopTime = EarliestStopTime target"
    and r: "stakers = (if \<not> IsValidator (Priority target) \<or> SubnetID target \<noteq> PrimaryNetworkID
                       then [target]
                       else sameNodeStakers target current [target])"
    by (auto simp: verifyStopStakerTx_def split: if_splits option.splits sum.splits)
  have x: "execStopStakerTx b tx st =
             Inr (st\<lparr> ops := ops st @ map (stopWrite stopTime) stakers
                               @ [Consume (stopIns tx), Produce (stopID tx) (stopOuts tx)] \<rparr>)"
    if "\<forall>s \<in> set stakers. stopWriteError st stopTime s = None"
    using that assms stopStakers_ok [of stakers st stopTime]
    by (simp add: execStopStakerTx_def logWrite_def)
  have y: "execStopStakerTx b tx st = Inl err"
    if "firstStopError st stopTime stakers = Some err" for err
    using assms stopStakers_fails [OF that]
    by (simp add: execStopStakerTx_def)
  from c f s r x y findStaker_Some [OF f] show ?thesis
    by (auto simp: sameNodeStakers_filter)
qed

lemmas example_stop_defs =
  exampleStopChain_def exampleStopStakerTx_def exampleDelegatorA_def exampleDelegatorB_def
  exampleSubnetValidator_def exampleOtherValidator_def verifyStopStakerAuthorization_def
  IsValidator_def

theorem StopStakerTx_cascade_witness:
  "verifyStopStakerTx exampleBackend exampleStopChain exampleStopStakerTx
     = Inr ([examplePrimaryValidator, exampleDelegatorA, exampleSubnetValidator, exampleDelegatorB],
            100000) \<and>
   IsValidator (Priority examplePrimaryValidator) \<and>
   SubnetID examplePrimaryValidator = PrimaryNetworkID \<and>
   execStopStakerTx exampleBackend exampleStopStakerTx exampleStopChain
     = Inr (exampleStopChain\<lparr> ops :=
         [UpdateCurrentValidator (examplePrimaryValidator\<lparr> EarliestStopTime := 100000 \<rparr>),
          UpdateCurrentDelegator (exampleDelegatorA\<lparr> EarliestStopTime := 100000 \<rparr>),
          UpdateCurrentValidator (exampleSubnetValidator\<lparr> EarliestStopTime := 100000 \<rparr>),
          UpdateCurrentDelegator (exampleDelegatorB\<lparr> EarliestStopTime := 100000 \<rparr>),
          Consume [4], Produce 300 [5]] \<rparr>) \<and>
   verifyStopStakerTx exampleBackend exampleFailingStopChain exampleStopStakerTx
     = Inr ([examplePrimaryValidator, exampleDelegatorA, exampleSubnetValidator, exampleDelegatorB],
            100000) \<and>
   firstStopError exampleFailingStopChain 100000
       [examplePrimaryValidator, exampleDelegatorA, exampleSubnetValidator, exampleDelegatorB]
     = Some (ErrOther 7) \<and>
   execStopStakerTx exampleBackend exampleStopStakerTx exampleFailingStopChain = Inl (ErrOther 7)"
proof -
  have v: "verifyStopStakerTx exampleBackend exampleStopChain exampleStopStakerTx
     = Inr ([examplePrimaryValidator, exampleDelegatorA, exampleSubnetValidator, exampleDelegatorB],
            100000)"
    by (simp add: verifyStopStakerTx_def example_stop_defs example_staking_defs)
  have e: "\<forall>s \<in> set [examplePrimaryValidator, exampleDelegatorA, exampleSubnetValidator,
                      exampleDelegatorB].
             stopWriteError exampleStopChain 100000 s = None"
    by (simp add: stopWriteError_def exampleStopChain_def exampleChain_def)
  have o: "ops exampleStopChain = []"
    by (simp add: exampleStopChain_def exampleChain_def)
  have p: "IsValidator (Priority examplePrimaryValidator)"
    "\<not> IsValidator (Priority exampleDelegatorA)"
    "IsValidator (Priority exampleSubnetValidator)"
    "\<not> IsValidator (Priority exampleDelegatorB)"
    "SubnetID examplePrimaryValidator = PrimaryNetworkID"
    by (simp_all add: example_stop_defs examplePrimaryValidator_def)
  have v2: "verifyStopStakerTx exampleBackend exampleFailingStopChain exampleStopStakerTx
     = Inr ([examplePrimaryValidator, exampleDelegatorA, exampleSubnetValidator, exampleDelegatorB],
            100000)"
    by (simp add: verifyStopStakerTx_def exampleFailingStopChain_def example_stop_defs
          example_staking_defs)
  have f: "firstStopError exampleFailingStopChain 100000
       [examplePrimaryValidator, exampleDelegatorA, exampleSubnetValidator, exampleDelegatorB]
     = Some (ErrOther 7)"
    by (simp add: stopWriteError_def p exampleFailingStopChain_def exampleStopChain_def
          exampleChain_def)
  show ?thesis
    using StopStakerTx_cascade [OF v] StopStakerTx_cascade [OF v2] e v v2 f
    by (auto simp: o p stopWrite_def exampleStopStakerTx_def)
qed

end
